theory Spec2Isabelle
  imports Main
begin

section \<open>JavaScript values\<close>

text \<open>
  The embedding follows \<^verbatim>\<open>src/flatdb.js\<close> (lines 1 to 565, the revision with binary
  storage). Values are JSON-like data and Buffers. Numbers are integers; strings are
  sequences of code units below 256. An object is the list of its own enumerable
  properties in enumeration order. Where the property name is a name of the database
  (a table, a field of a document, of a query or of a schema, an operator),
  \<^verbatim>\<open>o[k]\<close> reads an own property and is \<^verbatim>\<open>undefined\<close> otherwise. Where the property
  name is a value of the data (the key of a bucket of an index, the key of a group),
  the read follows the prototype chain: see \<open>inherited\<close> below. Two distinct arrays,
  objects or Buffers are never \<^verbatim>\<open>===\<close>: a query and a stored record share no object.
\<close>

datatype jsval =
    Undefined
  | Null
  | Bool bool
  | Num int
  | Str string
  | Buf "nat list"
  | Arr "jsval list"
  | Obj "(string \<times> jsval) list"

type_synonym obj = "(string \<times> jsval) list"

datatype error = Error string | TypeError | SyntaxError

text \<open>
  What the code takes from the runtime and its libraries, as parameters:
  the SHA-256 digest in hexadecimal (\<^verbatim>\<open>crypto\<close>), UTF-8 coding (\<^verbatim>\<open>Buffer\<close>), the
  conversion of a string to a number, regular expressions (\<^verbatim>\<open>RegExp\<close>; a pattern that
  does not compile raises \<^verbatim>\<open>SyntaxError\<close>), the clock and the identifier generator
  (\<^verbatim>\<open>Date\<close>, \<^verbatim>\<open>Math.random\<close>), both read at a tick that the state counts.
\<close>

record env =
  sha256hex :: "nat list \<Rightarrow> string"
  utf8_encode :: "string \<Rightarrow> nat list"
  utf8_decode :: "nat list \<Rightarrow> string"
  string_to_number :: "string \<Rightarrow> int option"
  regexp_valid :: "jsval \<Rightarrow> bool"
  regexp_test :: "jsval \<Rightarrow> jsval \<Rightarrow> bool"
  clock :: "nat \<Rightarrow> string"
  fresh_id :: "nat \<Rightarrow> string"

fun truthy :: "jsval \<Rightarrow> bool" where
  "truthy Undefined = False"
| "truthy Null = False"
| "truthy (Bool b) = b"
| "truthy (Num n) = (n \<noteq> 0)"
| "truthy (Str s) = (s \<noteq> [])"
| "truthy (Buf bs) = True"
| "truthy (Arr xs) = True"
| "truthy (Obj kvs) = True"

fun typeof :: "jsval \<Rightarrow> string" where
  "typeof Undefined = ''undefined''"
| "typeof Null = ''object''"
| "typeof (Bool b) = ''boolean''"
| "typeof (Num n) = ''number''"
| "typeof (Str s) = ''string''"
| "typeof (Buf bs) = ''object''"
| "typeof (Arr xs) = ''object''"
| "typeof (Obj kvs) = ''object''"

fun strict_eq :: "jsval \<Rightarrow> jsval \<Rightarrow> bool" where
  "strict_eq Undefined Undefined = True"
| "strict_eq Null Null = True"
| "strict_eq (Bool a) (Bool b) = (a = b)"
| "strict_eq (Num a) (Num b) = (a = b)"
| "strict_eq (Str a) (Str b) = (a = b)"
| "strict_eq a b = False"

definition is_nullish :: "jsval \<Rightarrow> bool" where
  "is_nullish v = (v = Undefined \<or> v = Null)"

definition js_get :: "obj \<Rightarrow> string \<Rightarrow> jsval" where
  "js_get ob k = (case map_of ob k of None \<Rightarrow> Undefined | Some v \<Rightarrow> v)"

text \<open>
  The names of the members that an object literal \<^verbatim>\<open>{}\<close> inherits from
  \<^verbatim>\<open>Object.prototype\<close>. Read through such a name, an object without an own property of
  that name yields the inherited member: a function or, for \<^verbatim>\<open>__proto__\<close>, the prototype
  itself. Each is truthy, and none has a property \<^verbatim>\<open>push\<close>, \<^verbatim>\<open>map\<close> or \<^verbatim>\<open>docs\<close>.
\<close>

definition inherited :: "string \<Rightarrow> bool" where
  "inherited k =
     (k \<in> set [''constructor'', ''__defineGetter__'', ''__defineSetter__'', ''hasOwnProperty'',
               ''__lookupGetter__'', ''__lookupSetter__'', ''isPrototypeOf'',
               ''propertyIsEnumerable'', ''toString'', ''valueOf'', ''__proto__'',
               ''toLocaleString''])"

subsection \<open>Numbers and strings\<close>

fun join :: "string \<Rightarrow> string list \<Rightarrow> string" where
  "join sep [] = []"
| "join sep [x] = x"
| "join sep (x # y # ys) = x @ sep @ join sep (y # ys)"

fun show_nat :: "nat \<Rightarrow> string" where
  "show_nat n =
     (if n < 10 then [''0123456789'' ! n]
      else show_nat (n div 10) @ [''0123456789'' ! (n mod 10)])"

declare show_nat.simps [simp del]

definition show_int :: "int \<Rightarrow> string" where
  "show_int i = (if i < 0 then CHR ''-'' # show_nat (nat (- i)) else show_nat (nat i))"

definition digit_of :: "char \<Rightarrow> nat option" where
  "digit_of c =
     map_of [(CHR ''0'', 0), (CHR ''1'', 1), (CHR ''2'', 2), (CHR ''3'', 3), (CHR ''4'', 4),
             (CHR ''5'', 5), (CHR ''6'', 6), (CHR ''7'', 7), (CHR ''8'', 8), (CHR ''9'', 9)] c"

fun parse_nat :: "nat \<Rightarrow> string \<Rightarrow> nat option" where
  "parse_nat acc [] = Some acc"
| "parse_nat acc (c # cs) =
     (case digit_of c of None \<Rightarrow> None | Some d \<Rightarrow> parse_nat (10 * acc + d) cs)"

text \<open>
  An array index is a canonical decimal string below \<open>2^32 - 1\<close>. Such keys are
  enumerated first, in ascending order; the others follow in creation order.
\<close>

definition array_index :: "string \<Rightarrow> nat option" where
  "array_index s =
     (if s = [] \<or> (hd s = CHR ''0'' \<and> s \<noteq> ''0'') then None
      else case parse_nat 0 s of
             None \<Rightarrow> None
           | Some n \<Rightarrow> if n < 4294967295 then Some n else None)"

fun insert_index :: "nat \<Rightarrow> string \<Rightarrow> 'a \<Rightarrow> (string \<times> 'a) list \<Rightarrow> (string \<times> 'a) list" where
  "insert_index n k v [] = [(k, v)]"
| "insert_index n k v ((k', v') # rest) =
     (case array_index k' of
        None \<Rightarrow> (k, v) # (k', v') # rest
      | Some m \<Rightarrow> if m < n then (k', v') # insert_index n k v rest
                  else (k, v) # (k', v') # rest)"

fun obj_replace :: "string \<Rightarrow> 'a \<Rightarrow> (string \<times> 'a) list \<Rightarrow> (string \<times> 'a) list" where
  "obj_replace k v [] = []"
| "obj_replace k v ((k', v') # rest) =
     (if k' = k then (k, v) # rest else (k', v') # obj_replace k v rest)"

text \<open>The assignment \<^verbatim>\<open>o[k] = v\<close>.\<close>

definition obj_put :: "(string \<times> 'a) list \<Rightarrow> string \<Rightarrow> 'a \<Rightarrow> (string \<times> 'a) list" where
  "obj_put ob k v =
     (case map_of ob k of
        Some old \<Rightarrow> obj_replace k v ob
      | None \<Rightarrow> (case array_index k of
                   None \<Rightarrow> ob @ [(k, v)]
                 | Some n \<Rightarrow> insert_index n k v ob))"

text \<open>\<^verbatim>\<open>Object.assign(target, source)\<close>, and the spread of \<open>source\<close> into a literal.\<close>

fun obj_assign :: "obj \<Rightarrow> obj \<Rightarrow> obj" where
  "obj_assign target [] = target"
| "obj_assign target ((k, v) # rest) = obj_assign (obj_put target k v) rest"

fun to_string :: "env \<Rightarrow> jsval \<Rightarrow> string" where
  "to_string E Undefined = ''undefined''"
| "to_string E Null = ''null''"
| "to_string E (Bool b) = (if b then ''true'' else ''false'')"
| "to_string E (Num n) = show_int n"
| "to_string E (Str s) = s"
| "to_string E (Buf bs) = utf8_decode E bs"
| "to_string E (Arr xs) =
     join '','' (map (\<lambda>x. if x = Undefined \<or> x = Null then [] else to_string E x) xs)"
| "to_string E (Obj kvs) = ''[object Object]''"

fun to_primitive :: "env \<Rightarrow> jsval \<Rightarrow> jsval" where
  "to_primitive E (Buf bs) = Str (to_string E (Buf bs))"
| "to_primitive E (Arr xs) = Str (to_string E (Arr xs))"
| "to_primitive E (Obj kvs) = Str (to_string E (Obj kvs))"
| "to_primitive E v = v"

fun to_number :: "env \<Rightarrow> jsval \<Rightarrow> int option" where
  "to_number E Undefined = None"
| "to_number E Null = Some 0"
| "to_number E (Bool b) = Some (if b then 1 else 0)"
| "to_number E (Num n) = Some n"
| "to_number E (Str s) = string_to_number E s"
| "to_number E v = string_to_number E (to_string E v)"

fun str_less :: "string \<Rightarrow> string \<Rightarrow> bool" where
  "str_less [] [] = False"
| "str_less [] (y # ys) = True"
| "str_less (x # xs) [] = False"
| "str_less (x # xs) (y # ys) =
     (if (of_char x :: nat) < of_char y then True
      else if x = y then str_less xs ys else False)"

text \<open>
  The abstract relational comparison \<^verbatim>\<open>a < b\<close>: \<open>None\<close> when an operand converts to
  \<^verbatim>\<open>NaN\<close>, and then every one of \<^verbatim>\<open><\<close>, \<^verbatim>\<open>>\<close>, \<^verbatim>\<open><=\<close>, \<^verbatim>\<open>>=\<close> is false.
\<close>

definition js_compare :: "env \<Rightarrow> jsval \<Rightarrow> jsval \<Rightarrow> bool option" where
  "js_compare E a b =
     (case (to_primitive E a, to_primitive E b) of
        (Str s, Str t) \<Rightarrow> Some (str_less s t)
      | (pa, pb) \<Rightarrow> (case (to_number E pa, to_number E pb) of
                       (Some x, Some y) \<Rightarrow> Some (x < y)
                     | _ \<Rightarrow> None))"

definition js_lt :: "env \<Rightarrow> jsval \<Rightarrow> jsval \<Rightarrow> bool" where
  "js_lt E a b = (js_compare E a b = Some True)"

definition js_gt :: "env \<Rightarrow> jsval \<Rightarrow> jsval \<Rightarrow> bool" where
  "js_gt E a b = (js_compare E b a = Some True)"

definition js_le :: "env \<Rightarrow> jsval \<Rightarrow> jsval \<Rightarrow> bool" where
  "js_le E a b = (js_compare E b a = Some False)"

definition js_ge :: "env \<Rightarrow> jsval \<Rightarrow> jsval \<Rightarrow> bool" where
  "js_ge E a b = (js_compare E a b = Some False)"

text \<open>The property \<^verbatim>\<open>length\<close> of a value.\<close>

fun js_length :: "jsval \<Rightarrow> jsval" where
  "js_length (Str s) = Num (int (length s))"
| "js_length (Buf bs) = Num (int (length bs))"
| "js_length (Arr xs) = Num (int (length xs))"
| "js_length (Obj kvs) = js_get kvs ''length''"
| "js_length v = Undefined"

text \<open>\<^verbatim>\<open>Object.entries\<close> of an object, an array or a Buffer.\<close>

fun index_keys :: "nat \<Rightarrow> 'a list \<Rightarrow> (string \<times> 'a) list" where
  "index_keys i [] = []"
| "index_keys i (x # xs) = (show_nat i, x) # index_keys (Suc i) xs"

fun entries :: "jsval \<Rightarrow> (string \<times> jsval) list" where
  "entries (Obj kvs) = kvs"
| "entries (Arr xs) = index_keys 0 xs"
| "entries (Buf bs) = index_keys 0 (map (\<lambda>b. Num (int b)) bs)"
| "entries v = []"


section \<open>Predicate matcher\<close>

text \<open>
  \<^verbatim>\<open>Array.prototype.every\<close> and \<^verbatim>\<open>filter\<close> with a callback that may raise: the elements
  are visited in order, and the first exception ends the call.
\<close>

fun every :: "('a \<Rightarrow> error + bool) \<Rightarrow> 'a list \<Rightarrow> error + bool" where
  "every f [] = Inr True"
| "every f (x # xs) =
     (case f x of
        Inl e \<Rightarrow> Inl e
      | Inr b \<Rightarrow> if b then every f xs else Inr False)"

fun filter_e :: "('a \<Rightarrow> error + bool) \<Rightarrow> 'a list \<Rightarrow> error + 'a list" where
  "filter_e f [] = Inr []"
| "filter_e f (x # xs) =
     (case f x of
        Inl e \<Rightarrow> Inl e
      | Inr b \<Rightarrow> (case filter_e f xs of
                    Inl e \<Rightarrow> Inl e
                  | Inr ys \<Rightarrow> Inr (if b then x # ys else ys)))"

text \<open>
  \<^verbatim>\<open>record[key]\<close> handed to a test. The record is \<open>None\<close> when it is \<^verbatim>\<open>undefined\<close> (an
  index position beyond the record array), and the read raises \<^verbatim>\<open>TypeError\<close>.
\<close>

definition with_field :: "obj option \<Rightarrow> string \<Rightarrow> (jsval \<Rightarrow> bool) \<Rightarrow> error + bool" where
  "with_field r key f = (case r of None \<Rightarrow> Inl TypeError | Some ob \<Rightarrow> Inr (f (js_get ob key)))"

definition js_includes :: "jsval list \<Rightarrow> jsval \<Rightarrow> bool" where
  "js_includes xs v = list_ex (\<lambda>x. strict_eq x v) xs"

text \<open>The \<^verbatim>\<open>switch (op)\<close> of \<^verbatim>\<open>_matchesQuery\<close>, lines 423 to 434.\<close>

definition matchOperator :: "env \<Rightarrow> obj option \<Rightarrow> string \<Rightarrow> string \<times> jsval \<Rightarrow> error + bool" where
  "matchOperator E r key ov =
     (let opr = fst ov; v = snd ov in
      if opr = ''$gt'' then with_field r key (\<lambda>x. js_gt E x v)
      else if opr = ''$gte'' then with_field r key (\<lambda>x. js_ge E x v)
      else if opr = ''$lt'' then with_field r key (\<lambda>x. js_lt E x v)
      else if opr = ''$lte'' then with_field r key (\<lambda>x. js_le E x v)
      else if opr = ''$ne'' then with_field r key (\<lambda>x. \<not> strict_eq x v)
      else if opr = ''$in'' then
        (case v of Arr xs \<Rightarrow> with_field r key (js_includes xs) | _ \<Rightarrow> Inr False)
      else if opr = ''$nin'' then
        (case v of Arr xs \<Rightarrow> with_field r key (\<lambda>x. \<not> js_includes xs x) | _ \<Rightarrow> Inr False)
      else if opr = ''$exists'' then
        (case r of
           None \<Rightarrow> Inl TypeError
         | Some ob \<Rightarrow> Inr (strict_eq (Bool (map_of ob key \<noteq> None)) v))
      else if opr = ''$regex'' then
        (if regexp_valid E v then with_field r key (regexp_test E v) else Inl SyntaxError)
      else Inr False)"

definition matchesQuery :: "env \<Rightarrow> obj option \<Rightarrow> obj \<Rightarrow> error + bool" where
  "matchesQuery E r query =
     every (\<lambda>kv.
        if truthy (snd kv) \<and> typeof (snd kv) = ''object''
        then every (matchOperator E r (fst kv)) (entries (snd kv))
        else with_field r (fst kv) (\<lambda>x. strict_eq x (snd kv))) query"

section \<open>Schema\<close>

record rules =
  r_type :: "string option"
  r_required :: bool
  r_min :: "int option"
  r_max :: "int option"
  r_minLength :: "int option"
  r_maxLength :: "int option"
  r_pattern :: "string option"
  r_enum :: "jsval list option"
  r_maxSize :: "nat option"

type_synonym schema = "(string \<times> rules) list"

definition quoted :: "string \<Rightarrow> string" where
  "quoted s = CHR 0x27 # s @ [CHR 0x27]"

definition is_buffer :: "jsval \<Rightarrow> bool" where
  "is_buffer v = (case v of Buf bs \<Rightarrow> True | _ \<Rightarrow> False)"

definition typeErrors :: "env \<Rightarrow> string \<Rightarrow> rules \<Rightarrow> jsval \<Rightarrow> string list" where
  "typeErrors E field rules v =
     (if r_type rules = Some ''binary'' then
        (if is_buffer v then [] else [''Field '' @ quoted field @ '' must be a Buffer''])
        @ (case r_maxSize rules of
             None \<Rightarrow> []
           | Some m \<Rightarrow>
               if m \<noteq> 0 \<and> js_gt E (js_length v) (Num (int m))
               then [''Binary field '' @ quoted field @ '' exceeds maximum size of ''
                     @ show_nat m @ '' bytes'']
               else [])
      else (case r_type rules of
              None \<Rightarrow> []
            | Some t \<Rightarrow>
                if t \<noteq> [] \<and> typeof v \<noteq> t
                then [''Field '' @ quoted field @ '' must be of type '' @ t]
                else []))"

definition rangeErrors :: "env \<Rightarrow> string \<Rightarrow> rules \<Rightarrow> jsval \<Rightarrow> string list" where
  "rangeErrors E field rules v =
     (if r_type rules = Some ''number'' then
        (case r_min rules of
           None \<Rightarrow> []
         | Some m \<Rightarrow> if js_lt E v (Num m)
                     then [''Field '' @ quoted field @ '' must be >= '' @ show_int m] else [])
        @ (case r_max rules of
             None \<Rightarrow> []
           | Some m \<Rightarrow> if js_gt E v (Num m)
                       then [''Field '' @ quoted field @ '' must be <= '' @ show_int m] else [])
      else [])"

definition lengthErrors :: "env \<Rightarrow> string \<Rightarrow> rules \<Rightarrow> jsval \<Rightarrow> string list" where
  "lengthErrors E field rules v =
     (if r_type rules = Some ''string'' then
        (case r_minLength rules of
           None \<Rightarrow> []
         | Some m \<Rightarrow> if js_lt E (js_length v) (Num m)
                     then [''Field '' @ quoted field @ '' must have length >= '' @ show_int m]
                     else [])
        @ (case r_maxLength rules of
             None \<Rightarrow> []
           | Some m \<Rightarrow> if js_gt E (js_length v) (Num m)
                       then [''Field '' @ quoted field @ '' must have length <= '' @ show_int m]
                       else [])
      else [])"

definition enumErrors :: "env \<Rightarrow> string \<Rightarrow> rules \<Rightarrow> jsval \<Rightarrow> string list" where
  "enumErrors E field rules v =
     (case r_enum rules of
        None \<Rightarrow> []
      | Some allowed \<Rightarrow>
          if js_includes allowed v then []
          else [''Field '' @ quoted field @ '' must be one of: ''
                @ join '', '' (map (\<lambda>x. if x = Undefined \<or> x = Null then [] else to_string E x)
                                 allowed)])"

text \<open>
  The callback of \<^verbatim>\<open>Schema.validate\<close>, lines 12 to 69, for one \<^verbatim>\<open>[field, rules]\<close>
  entry: the violations it pushes, or the \<^verbatim>\<open>SyntaxError\<close> of \<^verbatim>\<open>new RegExp\<close>.
\<close>

definition fieldErrors :: "env \<Rightarrow> obj \<Rightarrow> string \<Rightarrow> rules \<Rightarrow> error + string list" where
  "fieldErrors E data field rules =
     (let v = js_get data field in
      if r_required rules \<and> is_nullish v then Inr [''Field '' @ quoted field @ '' is required'']
      else if is_nullish v then Inr []
      else
        (case (if r_type rules = Some ''string'' then r_pattern rules else None) of
           None \<Rightarrow>
             Inr (typeErrors E field rules v @ rangeErrors E field rules v
                  @ lengthErrors E field rules v @ enumErrors E field rules v)
         | Some p \<Rightarrow>
             if p = [] then
               Inr (typeErrors E field rules v @ rangeErrors E field rules v
                    @ lengthErrors E field rules v @ enumErrors E field rules v)
             else if \<not> regexp_valid E (Str p) then Inl SyntaxError
             else
               Inr (typeErrors E field rules v @ rangeErrors E field rules v
                    @ lengthErrors E field rules v
                    @ (if regexp_test E (Str p) v then []
                       else [''Field '' @ quoted field @ '' must match pattern '' @ p])
                    @ enumErrors E field rules v)))"

fun Schema_validate :: "env \<Rightarrow> schema \<Rightarrow> obj \<Rightarrow> error + string list" where
  "Schema_validate E [] data = Inr []"
| "Schema_validate E ((field, rules) # rest) data =
     (case fieldErrors E data field rules of
        Inl e \<Rightarrow> Inl e
      | Inr errs \<Rightarrow> (case Schema_validate E rest data of
                      Inl e \<Rightarrow> Inl e
                    | Inr others \<Rightarrow> Inr (errs @ others)))"

section \<open>Tables and the database\<close>

text \<open>
  \<open>Table\<close> is the handle (\<^verbatim>\<open>class Table\<close>: its name, its schema, its blob directory);
  \<open>table_data\<close> is the entry \<^verbatim>\<open>db.data.tables[name]\<close>. The state \<open>world\<close> holds the
  tables of the connected database, its option \<^verbatim>\<open>maxBinarySize\<close>, the blob files by
  path, the paths handed to \<^verbatim>\<open>fs.writeFile\<close> for blobs in call order, and the number of
  clock and identifier reads so far. File-system calls are taken to succeed, and
  \<^verbatim>\<open>db.save()\<close>, which writes the tables out unchanged, is not part of the state.
  The blob directory is given relative to the directory of the database file. The
  property \<^verbatim>\<open>binaryFields\<close> of a table's entry, which no method reads or writes, is
  left out.
\<close>

record Table =
  name :: string
  schema :: "schema option"
  binaryDir :: string

record fk_reference =
  ref_table :: string
  ref_field :: string

record table_data =
  records :: "obj list"
  indexes :: "(string \<times> (string \<times> nat list) list) list"
  foreignKeys :: "(string \<times> fk_reference) list"

record world =
  tables :: "(string \<times> table_data) list"
  maxBinarySize :: nat
  files :: "string \<Rightarrow> nat list option"
  writes :: "string list"
  tick :: nat

definition get_table :: "world \<Rightarrow> string \<Rightarrow> table_data option" where
  "get_table w n = map_of (tables w) n"

definition set_table :: "world \<Rightarrow> string \<Rightarrow> table_data \<Rightarrow> world" where
  "set_table w n td = w\<lparr>tables := obj_put (tables w) n td\<rparr>"

text \<open>
  The constructor of \<^verbatim>\<open>FlatDB\<close> (lines 523 to 530) and \<^verbatim>\<open>connect\<close> on a new path.
  The argument is the option \<^verbatim>\<open>maxBinarySize\<close>, if given: the options are spread after
  the default of 10 MB, so a given value stands, 0 included.
\<close>

definition FlatDB_connect :: "nat option \<Rightarrow> world" where
  "FlatDB_connect opt =
     \<lparr>tables = [],
      maxBinarySize = (case opt of None \<Rightarrow> 10 * 1024 * 1024 | Some n \<Rightarrow> n),
      files = (\<lambda>p. None), writes = [], tick = 0\<rparr>"

definition ensureTableExists :: "string \<Rightarrow> world \<Rightarrow> world" where
  "ensureTableExists n w =
     (case get_table w n of
        Some td \<Rightarrow> w
      | None \<Rightarrow> set_table w n \<lparr>records = [], indexes = [], foreignKeys = []\<rparr>)"

text \<open>
  \<^verbatim>\<open>FlatDB.table\<close>, lines 550 to 562: a binary field with no (or zero) \<^verbatim>\<open>maxSize\<close>
  takes the database's limit; the handle carries the schema so completed.
\<close>

definition applyGlobalLimit :: "nat \<Rightarrow> string \<times> rules \<Rightarrow> string \<times> rules" where
  "applyGlobalLimit limit fr =
     (if r_type (snd fr) = Some ''binary''
         \<and> (r_maxSize (snd fr) = None \<or> r_maxSize (snd fr) = Some 0)
      then (fst fr, (snd fr)\<lparr>r_maxSize := Some limit\<rparr>)
      else fr)"

definition FlatDB_table :: "string \<Rightarrow> schema option \<Rightarrow> world \<Rightarrow> world \<times> Table" where
  "FlatDB_table n sch w =
     (ensureTableExists n w,
      \<lparr>name = n,
       schema = map_option (map (applyGlobalLimit (maxBinarySize w))) sch,
       binaryDir = n @ ''_binary''\<rparr>)"

definition validateData :: "env \<Rightarrow> Table \<Rightarrow> obj \<Rightarrow> error + string list" where
  "validateData E T data =
     (case schema T of None \<Rightarrow> Inr [] | Some defn \<Rightarrow> Schema_validate E defn data)"

subsection \<open>Binary store\<close>

definition detectMimeType :: "nat list \<Rightarrow> string" where
  "detectMimeType buffer =
     (if length buffer < 4 then ''application/octet-stream''
      else if buffer ! 0 = 255 \<and> buffer ! 1 = 216 then ''image/jpeg''
      else if buffer ! 0 = 137 \<and> buffer ! 1 = 80 then ''image/png''
      else if buffer ! 0 = 71 \<and> buffer ! 1 = 73 then ''image/gif''
      else if buffer ! 0 = 37 \<and> buffer ! 1 = 80 then ''application/pdf''
      else ''application/octet-stream'')"

text \<open>
  What \<^verbatim>\<open>hash.update\<close> and \<^verbatim>\<open>fs.writeFile\<close> take of a value: the bytes of a Buffer,
  the UTF-8 bytes of a string; any other value raises \<^verbatim>\<open>TypeError\<close>.
\<close>

definition blob_bytes :: "env \<Rightarrow> jsval \<Rightarrow> nat list option" where
  "blob_bytes E v =
     (case v of Buf bs \<Rightarrow> Some bs | Str s \<Rightarrow> Some (utf8_encode E s) | _ \<Rightarrow> None)"

definition mimeTypeOf :: "jsval \<Rightarrow> string" where
  "mimeTypeOf v = (case v of Buf bs \<Rightarrow> detectMimeType bs | _ \<Rightarrow> ''application/octet-stream'')"

definition blobPath :: "string \<Rightarrow> string \<Rightarrow> string" where
  "blobPath dir hash = dir @ ''/'' @ hash @ ''.bin''"

text \<open>The loop of \<^verbatim>\<open>_storeBinaryData\<close>, lines 116 to 135.\<close>

fun storeFields :: "env \<Rightarrow> string \<Rightarrow> obj \<Rightarrow> schema \<Rightarrow> obj \<Rightarrow> world \<Rightarrow> world \<times> (error + obj)" where
  "storeFields E dir data [] processedData w = (w, Inr processedData)"
| "storeFields E dir data ((field, rules) # rest) processedData w =
     (if r_type rules = Some ''binary'' \<and> truthy (js_get data field) then
        (case blob_bytes E (js_get data field) of
           None \<Rightarrow> (w, Inl TypeError)
         | Some bytes \<Rightarrow>
             (let hash = sha256hex E bytes;
                  filepath = blobPath dir hash;
                  metadata = Obj [(''size'', js_length (js_get data field)),
                                  (''hash'', Str hash),
                                  (''mimeType'', Str (mimeTypeOf (js_get data field)))]
              in storeFields E dir data rest
                   (obj_put (obj_put processedData field (Str (''binary:'' @ hash)))
                      (field @ ''_metadata'') metadata)
                   (w\<lparr>files := (files w)(filepath := Some bytes),
                      writes := writes w @ [filepath]\<rparr>)))
      else storeFields E dir data rest processedData w)"

definition storeBinaryData :: "env \<Rightarrow> Table \<Rightarrow> obj \<Rightarrow> world \<Rightarrow> world \<times> (error + obj)" where
  "storeBinaryData E T data w =
     (case schema T of
        None \<Rightarrow> (w, Inr data)
      | Some defn \<Rightarrow> storeFields E (binaryDir T) data defn data w)"

text \<open>\<^verbatim>\<open>String.prototype.replace\<close> with a string pattern: the first occurrence.\<close>

fun replace_first :: "string \<Rightarrow> string \<Rightarrow> string \<Rightarrow> string" where
  "replace_first pat rep [] = (if pat = [] then rep else [])"
| "replace_first pat rep (c # cs) =
     (if take (length pat) (c # cs) = pat then rep @ drop (length pat) (c # cs)
      else c # replace_first pat rep cs)"

definition js_replace :: "jsval \<Rightarrow> string \<Rightarrow> string \<Rightarrow> error + string" where
  "js_replace v pat rep = (case v of Str s \<Rightarrow> Inr (replace_first pat rep s) | _ \<Rightarrow> Inl TypeError)"

text \<open>The loop of \<^verbatim>\<open>_retrieveBinaryData\<close>, lines 159 to 170; a missing file gives null.\<close>

fun retrieveFields :: "string \<Rightarrow> obj \<Rightarrow> schema \<Rightarrow> obj \<Rightarrow> world \<Rightarrow> error + obj" where
  "retrieveFields dir record [] result w = Inr result"
| "retrieveFields dir record ((field, rules) # rest) result w =
     (if r_type rules = Some ''binary'' \<and> truthy (js_get record field) then
        (case js_replace (js_get record field) ''binary:'' [] of
           Inl e \<Rightarrow> Inl e
         | Inr hash \<Rightarrow>
             retrieveFields dir record rest
               (obj_put result field
                  (case files w (blobPath dir hash) of None \<Rightarrow> Null | Some bs \<Rightarrow> Buf bs)) w)
      else retrieveFields dir record rest result w)"

definition retrieveBinaryData :: "Table \<Rightarrow> obj \<Rightarrow> world \<Rightarrow> error + obj" where
  "retrieveBinaryData T record w =
     (case schema T of
        None \<Rightarrow> Inr record
      | Some defn \<Rightarrow> retrieveFields (binaryDir T) record defn record w)"

subsection \<open>Indexes\<close>

text \<open>
  The index of a field maps the string form of a value (a property key) to the
  positions pushed for it: lines 180 to 184, 211 to 215, 257 to 261 and 345 to 349.
  The test \<^verbatim>\<open>!table.indexes[field][value]\<close> reads the bucket through the prototype
  chain. An own bucket is an array and gets the position. When there is none and the
  key names an inherited member, the test finds that member, no bucket is created, and
  \<^verbatim>\<open>.push\<close> is not a function: \<^verbatim>\<open>TypeError\<close>. Otherwise the bucket is created.
\<close>

definition index_push ::
  "env \<Rightarrow> obj \<Rightarrow> nat \<Rightarrow> string \<Rightarrow> (string \<times> nat list) list
     \<Rightarrow> error + (string \<times> nat list) list" where
  "index_push E record pos field idx =
     (let key = to_string E (js_get record field)
      in case map_of idx key of
           Some ps \<Rightarrow> Inr (obj_put idx key (ps @ [pos]))
         | None \<Rightarrow> if inherited key then Inl TypeError else Inr (obj_put idx key [pos]))"

text \<open>
  The loop over the records that fills the index of a field, lines 179 to 185 and 344 to
  350. The index is filled in place: when a push raises, it holds what was pushed before.
\<close>

fun buildIndex ::
  "env \<Rightarrow> string \<Rightarrow> nat \<Rightarrow> obj list \<Rightarrow> (string \<times> nat list) list
     \<Rightarrow> (string \<times> nat list) list \<times> (error + unit)" where
  "buildIndex E field pos [] idx = (idx, Inr ())"
| "buildIndex E field pos (r # rs) idx =
     (case index_push E r pos field idx of
        Inl e \<Rightarrow> (idx, Inl e)
      | Inr idx' \<Rightarrow> buildIndex E field (Suc pos) rs idx')"

definition Table_createIndex :: "env \<Rightarrow> Table \<Rightarrow> string \<Rightarrow> world \<Rightarrow> world \<times> (error + unit)" where
  "Table_createIndex E T field w =
     (case get_table w (name T) of
        None \<Rightarrow> (w, Inl TypeError)
      | Some td \<Rightarrow>
          (case buildIndex E field 0 (records td) [] of
             (idx, outcome) \<Rightarrow>
               (set_table w (name T) (td\<lparr>indexes := obj_put (indexes td) field idx\<rparr>), outcome)))"

definition Table_addForeignKey ::
  "Table \<Rightarrow> string \<Rightarrow> string \<Rightarrow> string \<Rightarrow> world \<Rightarrow> world \<times> (error + unit)" where
  "Table_addForeignKey T field referenceTable referenceField w =
     (case get_table w (name T) of
        None \<Rightarrow> (w, Inl TypeError)
      | Some td \<Rightarrow>
          (set_table w (name T)
             (td\<lparr>foreignKeys := obj_put (foreignKeys td) field
                    \<lparr>ref_table = referenceTable, ref_field = referenceField\<rparr>\<rparr>),
           Inr ()))"

subsection \<open>Insertion\<close>

definition newRecord :: "env \<Rightarrow> obj \<Rightarrow> nat \<Rightarrow> obj" where
  "newRecord E processedData t =
     obj_put (obj_assign [(''_id'', Str (fresh_id E t))] processedData)
       ''createdAt'' (Str (clock E (Suc t)))"

text \<open>
  The \<^verbatim>\<open>forEach\<close> over the indexed fields, lines 210 to 216 and 256 to 262: the position
  of the new record is pushed to the index of each field in turn. When a push raises,
  the indexes before it have the position and the others do not.
\<close>

fun updateIndexes ::
  "env \<Rightarrow> obj \<Rightarrow> nat \<Rightarrow> (string \<times> (string \<times> nat list) list) list
     \<Rightarrow> (string \<times> (string \<times> nat list) list) list \<times> (error + unit)" where
  "updateIndexes E record pos [] = ([], Inr ())"
| "updateIndexes E record pos ((field, idx) # rest) =
     (case index_push E record pos field idx of
        Inl e \<Rightarrow> ((field, idx) # rest, Inl e)
      | Inr idx' \<Rightarrow>
          (case updateIndexes E record pos rest of
             (rest', outcome) \<Rightarrow> ((field, idx') # rest', outcome)))"

text \<open>The push of the record (lines 207 and 252) and the index updates after it.\<close>

definition appendRecord :: "env \<Rightarrow> obj \<Rightarrow> table_data \<Rightarrow> table_data \<times> (error + unit)" where
  "appendRecord E record td =
     (case updateIndexes E record (length (records td)) (indexes td) of
        (ixs, outcome) \<Rightarrow> (td\<lparr>records := records td @ [record], indexes := ixs\<rparr>, outcome))"

text \<open>
  \<^verbatim>\<open>Table.insert\<close>, lines 195 to 220: validation, blob storage, a new identifier and
  timestamp, the push and the index updates. No foreign key is read. When an index
  update raises, the blob is written and the record is in the table.
\<close>

definition Table_insert :: "env \<Rightarrow> Table \<Rightarrow> obj \<Rightarrow> world \<Rightarrow> world \<times> (error + obj)" where
  "Table_insert E T data w =
     (case validateData E T data of
        Inl e \<Rightarrow> (w, Inl e)
      | Inr errors \<Rightarrow>
          if errors \<noteq> [] then (w, Inl (Error (''Validation failed: '' @ join '', '' errors)))
          else
            (case storeBinaryData E T data w of
               (w1, Inl e) \<Rightarrow> (w1, Inl e)
             | (w1, Inr processedData) \<Rightarrow>
                 (let record = newRecord E processedData (tick w1);
                      w2 = w1\<lparr>tick := tick w1 + 2\<rparr>
                  in case get_table w2 (name T) of
                       None \<Rightarrow> (w2, Inl TypeError)
                     | Some td \<Rightarrow>
                         (case appendRecord E record td of
                            (td', Inl e) \<Rightarrow> (set_table w2 (name T) td', Inl e)
                          | (td', Inr u) \<Rightarrow> (set_table w2 (name T) td', Inr record)))))"

text \<open>The first loop of \<^verbatim>\<open>insertMany\<close>, lines 227 to 232.\<close>

fun validateAll :: "env \<Rightarrow> Table \<Rightarrow> obj list \<Rightarrow> error + unit" where
  "validateAll E T [] = Inr ()"
| "validateAll E T (data # rest) =
     (case validateData E T data of
        Inl e \<Rightarrow> Inl e
      | Inr errors \<Rightarrow>
          if errors \<noteq> []
          then Inl (Error (''Validation failed for document: '' @ join '', '' errors))
          else validateAll E T rest)"

text \<open>
  The foreign-key check of one document, lines 236 to 244. \<^verbatim>\<open>FlatDB.table\<close> is declared
  \<^verbatim>\<open>async\<close> (line 550) and line 238 does not await it: the call runs the constructor of
  \<^verbatim>\<open>Table\<close>, which creates the referenced table when it is missing, and yields a promise.
  A promise has no \<^verbatim>\<open>findOne\<close>, so line 239 raises \<^verbatim>\<open>TypeError\<close> before any lookup.
\<close>

fun checkForeignKeys :: "(string \<times> fk_reference) list \<Rightarrow> obj \<Rightarrow> world \<Rightarrow> world \<times> (error + unit)" where
  "checkForeignKeys [] data w = (w, Inr ())"
| "checkForeignKeys ((field, reference) # rest) data w =
     (if truthy (js_get data field)
      then (ensureTableExists (ref_table reference) w, Inl TypeError)
      else checkForeignKeys rest data w)"

text \<open>The second loop, lines 235 to 245; \<open>None\<close> when \<^verbatim>\<open>table\<close> is \<^verbatim>\<open>undefined\<close>.\<close>

fun checkAllForeignKeys ::
  "(string \<times> fk_reference) list option \<Rightarrow> obj list \<Rightarrow> world \<Rightarrow> world \<times> (error + unit)" where
  "checkAllForeignKeys fks [] w = (w, Inr ())"
| "checkAllForeignKeys fks (data # rest) w =
     (case fks of
        None \<Rightarrow> (w, Inl TypeError)
      | Some fs \<Rightarrow>
          (case checkForeignKeys fs data w of
             (w1, Inl e) \<Rightarrow> (w1, Inl e)
           | (w1, Inr u) \<Rightarrow> checkAllForeignKeys fks rest w1))"

text \<open>The third loop, lines 248 to 263, returning the records pushed.\<close>

fun insertAll :: "env \<Rightarrow> Table \<Rightarrow> obj list \<Rightarrow> world \<Rightarrow> world \<times> (error + obj list)" where
  "insertAll E T [] w = (w, Inr [])"
| "insertAll E T (data # rest) w =
     (case storeBinaryData E T data w of
        (w1, Inl e) \<Rightarrow> (w1, Inl e)
      | (w1, Inr processedData) \<Rightarrow>
          (let record = newRecord E processedData (tick w1);
               w2 = w1\<lparr>tick := tick w1 + 2\<rparr>
           in case get_table w2 (name T) of
                None \<Rightarrow> (w2, Inl TypeError)
              | Some td \<Rightarrow>
                  (case appendRecord E record td of
                     (td', Inl e) \<Rightarrow> (set_table w2 (name T) td', Inl e)
                   | (td', Inr u) \<Rightarrow>
                       (case insertAll E T rest (set_table w2 (name T) td') of
                          (w3, Inl e) \<Rightarrow> (w3, Inl e)
                        | (w3, Inr rs) \<Rightarrow> (w3, Inr (record # rs))))))"

definition Table_insertMany :: "env \<Rightarrow> Table \<Rightarrow> obj list \<Rightarrow> world \<Rightarrow> world \<times> (error + obj list)" where
  "Table_insertMany E T documents w =
     (case validateAll E T documents of
        Inl e \<Rightarrow> (w, Inl e)
      | Inr u \<Rightarrow>
          (case checkAllForeignKeys (map_option foreignKeys (get_table w (name T))) documents w of
             (w1, Inl e) \<Rightarrow> (w1, Inl e)
           | (w1, Inr u) \<Rightarrow> insertAll E T documents w1))"

subsection \<open>Queries\<close>

definition nth_opt :: "'a list \<Rightarrow> nat \<Rightarrow> 'a option" where
  "nth_opt xs i = (if i < length xs then Some (xs ! i) else None)"

text \<open>
  \<^verbatim>\<open>Table.find\<close>, lines 269 to 281, as the positions of the records it returns (the
  callers mutate these records in place). The index path reads
  \<^verbatim>\<open>table.records[idx]\<close>, which is \<^verbatim>\<open>undefined\<close> beyond the array. It reads the bucket
  through the prototype chain as well: for a key that names an inherited member and
  has no bucket, \<^verbatim>\<open>indexes\<close> is that member and \<^verbatim>\<open>indexes.map\<close> is not a function.
\<close>

definition find_positions :: "env \<Rightarrow> Table \<Rightarrow> obj \<Rightarrow> world \<Rightarrow> error + nat list" where
  "find_positions E T query w =
     (case get_table w (name T) of
        None \<Rightarrow> Inl TypeError
      | Some td \<Rightarrow>
          (let scan = filter_e (\<lambda>p. matchesQuery E (nth_opt (records td) p) query)
                        [0..<length (records td)]
           in case List.find (\<lambda>field. map_of (indexes td) field \<noteq> None) (map fst query) of
                None \<Rightarrow> scan
              | Some indexedField \<Rightarrow>
                  if indexedField \<noteq> [] \<and> typeof (js_get query indexedField) \<noteq> ''object''
                  then
                    (case (case map_of (indexes td) indexedField of
                             None \<Rightarrow> Inr []
                           | Some idx \<Rightarrow>
                               (case map_of idx (to_string E (js_get query indexedField)) of
                                  None \<Rightarrow>
                                    if inherited (to_string E (js_get query indexedField))
                                    then Inl TypeError else Inr []
                                | Some ps \<Rightarrow> Inr ps)) of
                       Inl e \<Rightarrow> Inl e
                     | Inr ps \<Rightarrow>
                         filter_e (\<lambda>p. matchesQuery E (nth_opt (records td) p) query) ps)
                  else scan))"

definition records_at :: "world \<Rightarrow> string \<Rightarrow> nat list \<Rightarrow> obj list" where
  "records_at w n ps =
     (case get_table w n of None \<Rightarrow> [] | Some td \<Rightarrow> map (\<lambda>p. records td ! p) ps)"

definition Table_find :: "env \<Rightarrow> Table \<Rightarrow> obj \<Rightarrow> world \<Rightarrow> error + obj list" where
  "Table_find E T query w =
     (case find_positions E T query w of
        Inl e \<Rightarrow> Inl e
      | Inr ps \<Rightarrow> Inr (records_at w (name T) ps))"

definition Table_findOne :: "env \<Rightarrow> Table \<Rightarrow> obj \<Rightarrow> world \<Rightarrow> error + obj option" where
  "Table_findOne E T query w =
     (case Table_find E T query w of
        Inl e \<Rightarrow> Inl e
      | Inr results \<Rightarrow> Inr (case results of [] \<Rightarrow> None | r # rest \<Rightarrow> Some r))"

definition Table_findById :: "Table \<Rightarrow> jsval \<Rightarrow> world \<Rightarrow> error + obj option" where
  "Table_findById T ident w =
     (case get_table w (name T) of
        None \<Rightarrow> Inl TypeError
      | Some td \<Rightarrow>
          (case List.find (\<lambda>r. strict_eq (js_get r ''_id'') ident) (records td) of
             None \<Rightarrow> Inr None
           | Some record \<Rightarrow> map_sum id Some (retrieveBinaryData T record w)))"

definition Table_count :: "env \<Rightarrow> Table \<Rightarrow> obj \<Rightarrow> world \<Rightarrow> error + nat" where
  "Table_count E T query w =
     (if query = [] then
        (case get_table w (name T) of None \<Rightarrow> Inl TypeError | Some td \<Rightarrow> Inr (length (records td)))
      else map_sum id length (Table_find E T query w))"

subsection \<open>Update and delete\<close>

text \<open>
  \<^verbatim>\<open>{ ...record, ...update, updatedAt }\<close> of line 300, and the result of the
  \<^verbatim>\<open>Object.assign\<close> of lines 306 to 308 on the record.
\<close>

definition mergeUpdate :: "obj \<Rightarrow> obj \<Rightarrow> string \<Rightarrow> obj" where
  "mergeUpdate record upd now = obj_put (obj_assign record upd) ''updatedAt'' (Str now)"

text \<open>
  The \<^verbatim>\<open>forEach\<close> of \<^verbatim>\<open>Table.update\<close>, lines 299 to 309, over the positions of the
  records found: each record is validated as merged and then assigned, one after the
  other. (The positions are those of \<open>find_positions\<close>, which exist in the table.)
\<close>

fun updateEach :: "env \<Rightarrow> Table \<Rightarrow> obj \<Rightarrow> nat list \<Rightarrow> world \<Rightarrow> world \<times> (error + unit)" where
  "updateEach E T upd [] w = (w, Inr ())"
| "updateEach E T upd (p # ps) w =
     (case get_table w (name T) of
        None \<Rightarrow> (w, Inl TypeError)
      | Some td \<Rightarrow>
          (case nth_opt (records td) p of
             None \<Rightarrow> (w, Inl TypeError)
           | Some record \<Rightarrow>
               (case validateData E T (mergeUpdate record upd (clock E (tick w))) of
                  Inl e \<Rightarrow> (w\<lparr>tick := tick w + 1\<rparr>, Inl e)
                | Inr errors \<Rightarrow>
                    if errors \<noteq> []
                    then (w\<lparr>tick := tick w + 1\<rparr>,
                          Inl (Error (''Validation failed: '' @ join '', '' errors)))
                    else updateEach E T upd ps
                           (set_table (w\<lparr>tick := tick w + 2\<rparr>) (name T)
                              (td\<lparr>records := (records td)
                                    [p := mergeUpdate record upd (clock E (tick w + 1))]\<rparr>)))))"

definition Table_update :: "env \<Rightarrow> Table \<Rightarrow> obj \<Rightarrow> obj \<Rightarrow> world \<Rightarrow> world \<times> (error + obj list)" where
  "Table_update E T query upd w =
     (case find_positions E T query w of
        Inl e \<Rightarrow> (w, Inl e)
      | Inr ps \<Rightarrow>
          (case updateEach E T upd ps w of
             (w1, Inl e) \<Rightarrow> (w1, Inl e)
           | (w1, Inr u) \<Rightarrow> (w1, Inr (records_at w1 (name T) ps))))"

definition Table_updateOne ::
  "env \<Rightarrow> Table \<Rightarrow> obj \<Rightarrow> obj \<Rightarrow> world \<Rightarrow> world \<times> (error + obj option)" where
  "Table_updateOne E T query upd w =
     (case find_positions E T query w of
        Inl e \<Rightarrow> (w, Inl e)
      | Inr ps \<Rightarrow>
          (case updateEach E T upd (take 1 ps) w of
             (w1, Inl e) \<Rightarrow> (w1, Inl e)
           | (w1, Inr u) \<Rightarrow>
               (w1, Inr (case records_at w1 (name T) (take 1 ps) of
                           [] \<Rightarrow> None | r # rest \<Rightarrow> Some r))))"

text \<open>
  The rebuild of the indexes, lines 341 to 351: the index of each field in turn is
  emptied and filled from the records kept. When a push raises, the indexes of the
  fields after it are as they were.
\<close>

fun rebuildIndexes ::
  "env \<Rightarrow> obj list \<Rightarrow> (string \<times> (string \<times> nat list) list) list
     \<Rightarrow> (string \<times> (string \<times> nat list) list) list \<times> (error + unit)" where
  "rebuildIndexes E kept [] = ([], Inr ())"
| "rebuildIndexes E kept ((field, old) # rest) =
     (case buildIndex E field 0 kept [] of
        (idx, Inl e) \<Rightarrow> ((field, idx) # rest, Inl e)
      | (idx, Inr u) \<Rightarrow>
          (case rebuildIndexes E kept rest of
             (rest', outcome) \<Rightarrow> ((field, idx) # rest', outcome)))"

text \<open>\<^verbatim>\<open>Table.delete\<close>, lines 336 to 355: the records kept, then every index rebuilt.\<close>

definition Table_delete :: "env \<Rightarrow> Table \<Rightarrow> obj \<Rightarrow> world \<Rightarrow> world \<times> (error + nat)" where
  "Table_delete E T query w =
     (case get_table w (name T) of
        None \<Rightarrow> (w, Inl TypeError)
      | Some td \<Rightarrow>
          (case filter_e (\<lambda>r. map_sum id Not (matchesQuery E (Some r) query)) (records td) of
             Inl e \<Rightarrow> (w, Inl e)
           | Inr kept \<Rightarrow>
               (case rebuildIndexes E kept (indexes td) of
                  (ixs, Inl e) \<Rightarrow> (set_table w (name T) (td\<lparr>records := kept, indexes := ixs\<rparr>), Inl e)
                | (ixs, Inr u) \<Rightarrow>
                    (set_table w (name T) (td\<lparr>records := kept, indexes := ixs\<rparr>),
                     Inr (length (records td) - length kept)))))"

definition Table_deleteOne :: "env \<Rightarrow> Table \<Rightarrow> obj \<Rightarrow> world \<Rightarrow> world \<times> (error + nat)" where
  "Table_deleteOne E T query w =
     (case Table_findOne E T query w of
        Inl e \<Rightarrow> (w, Inl e)
      | Inr None \<Rightarrow> (w, Inr 0)
      | Inr (Some record) \<Rightarrow>
          (case Table_delete E T [(''_id'', js_get record ''_id'')] w of
             (w1, Inl e) \<Rightarrow> (w1, Inl e)
           | (w1, Inr n) \<Rightarrow> (w1, Inr 1)))"

subsection \<open>Aggregation\<close>

text \<open>
  A pipeline stage is an object; each of its keys \<^verbatim>\<open>$match\<close>, \<^verbatim>\<open>$sort\<close>, \<^verbatim>\<open>$limit\<close>,
  \<^verbatim>\<open>$skip\<close>, \<^verbatim>\<open>$group\<close> is absent (\<open>None\<close>) or holds its operand. The operand of
  \<^verbatim>\<open>$group\<close> is its \<^verbatim>\<open>_id\<close>, a value naming a field or a function of the document, with
  the other properties of the object.
\<close>

datatype group_id = GroupField jsval | GroupFun "obj \<Rightarrow> jsval"

record group_spec =
  g_id :: group_id
  g_others :: obj

record stage =
  st_match :: "obj option"
  st_sort :: "obj option"
  st_limit :: "int option"
  st_skip :: "int option"
  st_group :: "group_spec option"

text \<open>\<^verbatim>\<open>Array.prototype.slice(start, end)\<close>; \<open>None\<close> for an \<^verbatim>\<open>end\<close> not given.\<close>

definition js_slice :: "int \<Rightarrow> int option \<Rightarrow> 'a list \<Rightarrow> 'a list" where
  "js_slice start fin xs =
     (let len = int (length xs);
          k = (if start < 0 then max (len + start) 0 else min start len);
          e = (case fin of
                 None \<Rightarrow> len
               | Some f \<Rightarrow> if f < 0 then max (len + f) 0 else min f len)
      in take (nat (e - k)) (drop (nat k) xs))"

text \<open>
  \<^verbatim>\<open>Array.prototype.sort\<close> with a comparator is stable; the model is the stable
  insertion sort, which is the result for every comparator that is a consistent order.
\<close>

fun insort_cmp :: "('a \<Rightarrow> 'a \<Rightarrow> int) \<Rightarrow> 'a \<Rightarrow> 'a list \<Rightarrow> 'a list" where
  "insort_cmp c x [] = [x]"
| "insort_cmp c x (y # ys) = (if c x y \<le> 0 then x # y # ys else y # insort_cmp c x ys)"

definition sort_cmp :: "('a \<Rightarrow> 'a \<Rightarrow> int) \<Rightarrow> 'a list \<Rightarrow> 'a list" where
  "sort_cmp c xs = foldr (insort_cmp c) xs []"

definition sortStage :: "env \<Rightarrow> obj \<Rightarrow> obj list \<Rightarrow> obj list" where
  "sortStage E spec result =
     (let sortField = (case spec of [] \<Rightarrow> ''undefined'' | kv # rest \<Rightarrow> fst kv);
          sortOrder = (case to_number E (js_get spec sortField) of None \<Rightarrow> 0 | Some n \<Rightarrow> n)
      in sort_cmp (\<lambda>a b.
           if js_lt E (js_get a sortField) (js_get b sortField) then - 1 * sortOrder
           else if js_gt E (js_get a sortField) (js_get b sortField) then 1 * sortOrder
           else 0) result)"

text \<open>
  The \<^verbatim>\<open>forEach\<close> of the \<^verbatim>\<open>$group\<close> stage, lines 401 to 412: a group is its key as first
  seen, its count and its documents, stored under the key's string form. The test
  \<^verbatim>\<open>!groups[groupKey]\<close> reads through the prototype chain: for a key that names an
  inherited member and has no group, no group is created, the member has no \<^verbatim>\<open>docs\<close>,
  and line 411 raises \<^verbatim>\<open>TypeError\<close>.
\<close>

fun groupDocs ::
  "env \<Rightarrow> group_id \<Rightarrow> obj list \<Rightarrow> (string \<times> jsval \<times> nat \<times> obj list) list
     \<Rightarrow> error + (string \<times> jsval \<times> nat \<times> obj list) list" where
  "groupDocs E gid [] groups = Inr groups"
| "groupDocs E gid (doc # docs) groups =
     (let groupKey = (case gid of
                        GroupFun f \<Rightarrow> f doc
                      | GroupField v \<Rightarrow> js_get doc (to_string E v));
          k = to_string E groupKey
      in if map_of groups k = None \<and> inherited k then Inl TypeError
         else
           (let g = (case map_of groups k of None \<Rightarrow> (groupKey, 0, []) | Some old \<Rightarrow> old)
            in groupDocs E gid docs
                 (obj_put groups k (fst g, Suc (fst (snd g)), snd (snd g) @ [doc]))))"

definition groupObject :: "jsval \<times> nat \<times> obj list \<Rightarrow> obj" where
  "groupObject g =
     [(''_id'', fst g), (''count'', Num (int (fst (snd g)))), (''docs'', Arr (map Obj (snd (snd g))))]"

definition groupStage :: "env \<Rightarrow> group_spec \<Rightarrow> obj list \<Rightarrow> error + obj list" where
  "groupStage E spec result =
     map_sum id (map (\<lambda>kg. groupObject (snd kg))) (groupDocs E (g_id spec) result [])"

text \<open>The body of the loop over the pipeline, lines 380 to 414: five tests in a row.\<close>

definition applyStage :: "env \<Rightarrow> stage \<Rightarrow> obj list \<Rightarrow> error + obj list" where
  "applyStage E s result =
     (case (case st_match s of
              None \<Rightarrow> Inr result
            | Some q \<Rightarrow> filter_e (\<lambda>doc. matchesQuery E (Some doc) q) result) of
        Inl e \<Rightarrow> Inl e
      | Inr r1 \<Rightarrow>
          (let r2 = (case st_sort s of None \<Rightarrow> r1 | Some spec \<Rightarrow> sortStage E spec r1);
               r3 = (case st_limit s of
                       None \<Rightarrow> r2
                     | Some n \<Rightarrow> if n \<noteq> 0 then js_slice 0 (Some n) r2 else r2);
               r4 = (case st_skip s of
                       None \<Rightarrow> r3
                     | Some n \<Rightarrow> if n \<noteq> 0 then js_slice n None r3 else r3)
           in case st_group s of None \<Rightarrow> Inr r4 | Some spec \<Rightarrow> groupStage E spec r4))"

fun runPipeline :: "env \<Rightarrow> stage list \<Rightarrow> obj list \<Rightarrow> error + obj list" where
  "runPipeline E [] result = Inr result"
| "runPipeline E (s # rest) result =
     (case applyStage E s result of
        Inl e \<Rightarrow> Inl e
      | Inr r \<Rightarrow> runPipeline E rest r)"

definition Table_aggregate :: "env \<Rightarrow> Table \<Rightarrow> stage list \<Rightarrow> world \<Rightarrow> error + obj list" where
  "Table_aggregate E T pipeline w =
     (case get_table w (name T) of
        None \<Rightarrow> Inl TypeError
      | Some td \<Rightarrow> runPipeline E pipeline (records td))"

definition noStage :: stage where
  "noStage = \<lparr>st_match = None, st_sort = None, st_limit = None, st_skip = None, st_group = None\<rparr>"

subsection \<open>Similarity search\<close>

text \<open>
  The guard of line 491 is \<^verbatim>\<open>!this.schema?.definition[field]?.type === 'binary'\<close>: the
  negation binds first, so a boolean is compared with a string.
\<close>

definition declaredType :: "Table \<Rightarrow> string \<Rightarrow> jsval" where
  "declaredType T field =
     (case schema T of
        None \<Rightarrow> Undefined
      | Some defn \<Rightarrow>
          (case map_of defn field of
             None \<Rightarrow> Undefined
           | Some rules \<Rightarrow> (case r_type rules of None \<Rightarrow> Undefined | Some t \<Rightarrow> Str t)))"

definition get_prop :: "jsval \<Rightarrow> string \<Rightarrow> jsval" where
  "get_prop v k = (case v of Obj kvs \<Rightarrow> js_get kvs k | _ \<Rightarrow> Undefined)"

text \<open>The loop of \<^verbatim>\<open>findSimilarBinary\<close>, lines 497 to 516.\<close>

fun similarEach ::
  "env \<Rightarrow> Table \<Rightarrow> string \<Rightarrow> nat list \<Rightarrow> int option \<Rightarrow> string \<Rightarrow> world \<Rightarrow> obj list
     \<Rightarrow> error + obj list" where
  "similarEach E T field buffer tolerance sourceHash w [] = Inr []"
| "similarEach E T field buffer tolerance sourceHash w (record # rest) =
     (if truthy (js_get record field) then
        (case js_replace (js_get record field) ''binary:'' [] of
           Inl e \<Rightarrow> Inl e
         | Inr hash \<Rightarrow>
             if hash = sourceHash then
               (case retrieveBinaryData T record w of
                  Inl e \<Rightarrow> Inl e
                | Inr r \<Rightarrow> map_sum id (\<lambda>rs. r # rs)
                            (similarEach E T field buffer tolerance sourceHash w rest))
             else
               (case (case tolerance of None \<Rightarrow> None | Some t \<Rightarrow> if t \<noteq> 0 then Some t else None) of
                  None \<Rightarrow> similarEach E T field buffer tolerance sourceHash w rest
                | Some t \<Rightarrow>
                    if is_nullish (js_get record (field @ ''_metadata'')) then Inl TypeError
                    else if (case to_number E (get_prop (js_get record (field @ ''_metadata''))
                                                ''size'') of
                               None \<Rightarrow> False
                             | Some sz \<Rightarrow> \<bar>sz - int (length buffer)\<bar> \<le> t)
                    then
                      (case retrieveBinaryData T record w of
                         Inl e \<Rightarrow> Inl e
                       | Inr r \<Rightarrow> map_sum id (\<lambda>rs. r # rs)
                                   (similarEach E T field buffer tolerance sourceHash w rest))
                    else similarEach E T field buffer tolerance sourceHash w rest))
      else similarEach E T field buffer tolerance sourceHash w rest)"

definition Table_findSimilarBinary ::
  "env \<Rightarrow> Table \<Rightarrow> string \<Rightarrow> nat list \<Rightarrow> int option \<Rightarrow> world \<Rightarrow> error + obj list" where
  "Table_findSimilarBinary E T field buffer tolerance w =
     (if strict_eq (Bool (\<not> truthy (declaredType T field))) (Str ''binary'')
      then Inl (Error (''Field '' @ quoted field @ '' is not a binary field''))
      else
        (case get_table w (name T) of
           None \<Rightarrow> Inl TypeError
         | Some td \<Rightarrow>
             similarEach E T field buffer tolerance (sha256hex E buffer) w (records td)))"

section \<open>Properties: notions and concrete inputs\<close>

text \<open>The operators that \<^verbatim>\<open>_matchesQuery\<close> knows, and the operands none of whose keys is one.\<close>

definition unrecognized :: "string \<Rightarrow> bool" where
  "unrecognized opr =
     (opr \<notin> set [''$gt'', ''$gte'', ''$lt'', ''$lte'', ''$ne'', ''$in'', ''$nin'', ''$exists'',
                  ''$regex''])"

definition fails_closed :: "jsval \<Rightarrow> bool" where
  "fails_closed v =
     (case v of
        Arr xs \<Rightarrow> xs \<noteq> []
      | Obj kvs \<Rightarrow> kvs \<noteq> [] \<and> list_all (\<lambda>kv. unrecognized (fst kv)) kvs
      | _ \<Rightarrow> False)"

definition tagged :: obj where
  "tagged = [(''name'', Str ''A''), (''tags'', Arr [Str ''x''])]"

definition untagged :: obj where
  "untagged = [(''name'', Str ''B''), (''tags'', Arr [])]"

text \<open>Stages with one key, and a database whose only table holds given records.\<close>

definition skipStage :: "int \<Rightarrow> stage" where
  "skipStage n = noStage\<lparr>st_skip := Some n\<rparr>"

definition limitStage :: "int \<Rightarrow> stage" where
  "limitStage n = noStage\<lparr>st_limit := Some n\<rparr>"

definition with_records :: "world \<Rightarrow> string \<Rightarrow> obj list \<Rightarrow> world" where
  "with_records w n rs = w\<lparr>tables := [(n, \<lparr>records = rs, indexes = [], foreignKeys = []\<rparr>)]\<rparr>"

text \<open>
  A table \<^verbatim>\<open>users\<close> without schema: an index on \<^verbatim>\<open>age\<close> is created, one user aged 20
  is inserted, and the user's age is updated to 30.
\<close>

definition users :: Table where
  "users = \<lparr>name = ''users'', schema = None, binaryDir = ''users_binary''\<rparr>"

definition user_A :: obj where
  "user_A = [(''name'', Str ''A''), (''age'', Num 20)]"

definition stale_index_world :: "env \<Rightarrow> world" where
  "stale_index_world E =
     fst (Table_update E users [(''name'', Str ''A'')] [(''age'', Num 30)]
       (fst (Table_insert E users user_A
         (fst (Table_createIndex E users ''age''
           (fst (FlatDB_table ''users'' None (FlatDB_connect None))))))))"

text \<open>
  Tables \<^verbatim>\<open>users\<close> (empty) and \<^verbatim>\<open>posts\<close>, with the foreign key
  \<^verbatim>\<open>posts.addForeignKey('authorId', 'users', '_id')\<close>, and a post whose author is no user.
\<close>

definition posts :: Table where
  "posts = \<lparr>name = ''posts'', schema = None, binaryDir = ''posts_binary''\<rparr>"

definition orphan_post :: obj where
  "orphan_post = [(''title'', Str ''Invalid Post''), (''authorId'', Str ''non-existent-id'')]"

definition blog_world :: world where
  "blog_world =
     fst (Table_addForeignKey posts ''authorId'' ''users'' ''_id''
       (fst (FlatDB_table ''posts'' None
         (fst (FlatDB_table ''users'' None (FlatDB_connect None))))))"

text \<open>
  Two products of one category, and the stage
  \<^verbatim>\<open>{ $group: { _id: 'category', total: { $sum: 'price' } } }\<close>.
\<close>

definition products :: Table where
  "products = \<lparr>name = ''products'', schema = None, binaryDir = ''products_binary''\<rparr>"

definition laptop :: obj where
  "laptop = [(''name'', Str ''Laptop''), (''price'', Num 999), (''category'', Str ''electronics'')]"

definition phone :: obj where
  "phone = [(''name'', Str ''Phone''), (''price'', Num 699), (''category'', Str ''electronics'')]"

definition shop_world :: world where
  "shop_world =
     (FlatDB_connect None)\<lparr>tables :=
        [(''products'', \<lparr>records = [laptop, phone], indexes = [], foreignKeys = []\<rparr>)]\<rparr>"

definition sum_by_category :: stage where
  "sum_by_category =
     noStage\<lparr>st_group := Some \<lparr>g_id = GroupField (Str ''category''),
                                g_others = [(''total'', Obj [(''$sum'', Str ''price'')])]\<rparr>\<rparr>"

text \<open>
  The table \<^verbatim>\<open>images\<close> with the schema
  \<^verbatim>\<open>{ name: { type: 'string', required: true }, data: { type: 'binary' } }\<close>, holding
  one image.
\<close>

definition plain_rules :: rules where
  "plain_rules =
     \<lparr>r_type = None, r_required = False, r_min = None, r_max = None, r_minLength = None,
      r_maxLength = None, r_pattern = None, r_enum = None, r_maxSize = None\<rparr>"

definition image_schema :: schema where
  "image_schema =
     [(''name'', plain_rules\<lparr>r_type := Some ''string'', r_required := True\<rparr>),
      (''data'', plain_rules\<lparr>r_type := Some ''binary''\<rparr>)]"

definition images :: Table where
  "images = snd (FlatDB_table ''images'' (Some image_schema) (FlatDB_connect None))"

definition images_world :: "env \<Rightarrow> world" where
  "images_world E =
     fst (Table_insert E images [(''name'', Str ''base.txt''), (''data'', Buf [66, 97, 115, 101])]
       (fst (FlatDB_table ''images'' (Some image_schema) (FlatDB_connect None))))"


text \<open>
  What it is for a document to fail validation, and to fail the foreign-key check that
  \<^verbatim>\<open>insertMany\<close> makes of it (lines 236 to 244 raise on it).
\<close>

definition failsValidation :: "env \<Rightarrow> Table \<Rightarrow> obj \<Rightarrow> bool" where
  "failsValidation E T d = (validateData E T d \<noteq> Inr [])"

definition failsForeignKeyCheck :: "Table \<Rightarrow> world \<Rightarrow> obj \<Rightarrow> bool" where
  "failsForeignKeyCheck T w d =
     (snd (checkAllForeignKeys (map_option foreignKeys (get_table w (name T))) [d] w) \<noteq> Inr ())"

definition records_of :: "world \<Rightarrow> string \<Rightarrow> obj list option" where
  "records_of w n = map_option records (get_table w n)"

text \<open>
  A table \<^verbatim>\<open>people\<close> filled through a handle obtained without schema, by
  \<^verbatim>\<open>insertMany\<close>, with a person aged 20 and a person aged 150, and the handle of the
  same table obtained with the schema
  \<^verbatim>\<open>{ name: { type: 'string', required: true }, age: { type: 'number', min: 0, max: 120 } }\<close>.
\<close>

definition person_schema :: schema where
  "person_schema =
     [(''name'', plain_rules\<lparr>r_type := Some ''string'', r_required := True\<rparr>),
      (''age'', plain_rules\<lparr>r_type := Some ''number'', r_min := Some 0, r_max := Some 120\<rparr>)]"

definition people_raw :: Table where
  "people_raw = \<lparr>name = ''people'', schema = None, binaryDir = ''people_binary''\<rparr>"

definition people :: Table where
  "people = \<lparr>name = ''people'', schema = Some person_schema, binaryDir = ''people_binary''\<rparr>"

definition person_A :: "env \<Rightarrow> obj" where
  "person_A E = [(''_id'', Str (fresh_id E 0)), (''name'', Str ''A''), (''age'', Num 20),
                 (''createdAt'', Str (clock E 1))]"

definition person_B :: "env \<Rightarrow> obj" where
  "person_B E = [(''_id'', Str (fresh_id E 2)), (''name'', Str ''B''), (''age'', Num 150),
                 (''createdAt'', Str (clock E 3))]"

definition people_data :: "env \<Rightarrow> table_data" where
  "people_data E = \<lparr>records = [person_A E, person_B E], indexes = [], foreignKeys = []\<rparr>"

definition people_world :: "env \<Rightarrow> world" where
  "people_world E =
     fst (Table_insertMany E people_raw
            [[(''name'', Str ''A''), (''age'', Num 20)], [(''name'', Str ''B''), (''age'', Num 150)]]
            (fst (FlatDB_table ''people'' None (FlatDB_connect None))))"

definition member_patch :: obj where
  "member_patch = [(''role'', Str ''member'')]"

definition age_message :: string where
  "age_message = ''Field '' @ quoted ''age'' @ '' must be <= 120''"

text \<open>A batch of three documents, the second without the required name.\<close>

definition batch :: "obj list" where
  "batch = [[(''name'', Str ''C''), (''age'', Num 30)], [(''age'', Num 40)], [(''name'', Str ''D'')]]"





text \<open>
  \<open>storedRecord\<close> is the record that \<^verbatim>\<open>insert\<close> builds from a document once its blobs
  are stored (lines 201 to 205). \<open>indexKeysPlain\<close> says that the index updates of
  lines 210 to 216 raise nothing for it: no index of the table is read at a key that
  names a member inherited from \<^verbatim>\<open>Object.prototype\<close> and has no bucket in that index.
\<close>

definition storedRecord :: "env \<Rightarrow> Table \<Rightarrow> obj \<Rightarrow> world \<Rightarrow> obj option" where
  "storedRecord E T doc w =
     (case storeBinaryData E T doc w of
        (w1, Inl e) \<Rightarrow> None
      | (w1, Inr processedData) \<Rightarrow> Some (newRecord E processedData (tick w1)))"

definition indexKeysPlain :: "env \<Rightarrow> Table \<Rightarrow> obj \<Rightarrow> world \<Rightarrow> bool" where
  "indexKeysPlain E T doc w =
     (case (storedRecord E T doc w, get_table w (name T)) of
        (Some record, Some td) \<Rightarrow>
          list_all (\<lambda>fi. inherited (to_string E (js_get record (fst fi)))
                          \<longrightarrow> map_of (snd fi) (to_string E (js_get record (fst fi))) \<noteq> None)
            (indexes td)
      | _ \<Rightarrow> True)"

text \<open>
  A database with a given \<^verbatim>\<open>maxBinarySize\<close> and its table \<^verbatim>\<open>images\<close>, whose field
  \<^verbatim>\<open>data\<close> is binary with a given \<^verbatim>\<open>maxSize\<close> (or none); a document with \<open>n\<close> bytes.
\<close>

definition sized_schema :: "nat option \<Rightarrow> schema" where
  "sized_schema ms =
     [(''name'', plain_rules\<lparr>r_type := Some ''string'', r_required := True\<rparr>),
      (''data'', plain_rules\<lparr>r_type := Some ''binary'', r_maxSize := ms\<rparr>)]"



definition sized_images :: "nat \<Rightarrow> nat option \<Rightarrow> Table" where
  "sized_images global ms = snd (FlatDB_table ''images'' (Some (sized_schema ms)) (FlatDB_connect (Some global)))"

text \<open>
  A database with \<^verbatim>\<open>maxBinarySize: 100\<close> whose table \<^verbatim>\<open>images\<close> exists and has an index on
  \<^verbatim>\<open>name\<close>; a document whose name is the name of an inherited member.
\<close>

definition catalog_db :: "env \<Rightarrow> world" where
  "catalog_db E =
     fst (Table_createIndex E (snd (FlatDB_table ''images'' None (FlatDB_connect (Some 100))))
            ''name'' (fst (FlatDB_table ''images'' None (FlatDB_connect (Some 100)))))"

definition constructor_doc :: obj where
  "constructor_doc = [(''name'', Str ''constructor''), (''data'', Buf [1, 2, 3])]"


text \<open>
  \<open>onlyBinaryField S f\<close>: no field of the schema but \<open>f\<close> is binary. Two documents
  with the same three bytes are inserted one after the other in the table \<^verbatim>\<open>images\<close>;
  \<open>dup_path\<close> is the file of these bytes.
\<close>

definition onlyBinaryField :: "schema \<Rightarrow> string \<Rightarrow> bool" where
  "onlyBinaryField S f = list_all (\<lambda>fr. fst fr = f \<or> r_type (snd fr) \<noteq> Some ''binary'') S"

definition first_image :: obj where
  "first_image = [(''name'', Str ''first.txt''), (''data'', Buf [68, 117, 112])]"

definition second_image :: obj where
  "second_image = [(''name'', Str ''second.txt''), (''data'', Buf [68, 117, 112])]"

definition gallery0 :: world where
  "gallery0 = fst (FlatDB_table ''images'' (Some image_schema) (FlatDB_connect None))"

definition gallery1 :: "env \<Rightarrow> world" where
  "gallery1 E = fst (Table_insert E images first_image gallery0)"

definition gallery2 :: "env \<Rightarrow> world" where
  "gallery2 E = fst (Table_insert E images second_image (gallery1 E))"

definition dup_path :: "env \<Rightarrow> string" where
  "dup_path E = blobPath ''images_binary'' (sha256hex E [68, 117, 112])"

definition stored_schema :: schema where
  "stored_schema = map (applyGlobalLimit (10 * 1024 * 1024)) image_schema"

definition stored_rules :: rules where
  "stored_rules = plain_rules\<lparr>r_type := Some ''binary'', r_maxSize := Some (10 * 1024 * 1024)\<rparr>"

section \<open>Lemmas on objects and the matcher\<close>

lemmas model_defs =
  Table_insert_def validateData_def storeBinaryData_def newRecord_def appendRecord_def
  get_table_def set_table_def obj_put_def js_get_def index_push_def Table_createIndex_def
  FlatDB_table_def FlatDB_connect_def ensureTableExists_def array_index_def digit_of_def
  Table_update_def find_positions_def matchesQuery_def with_field_def nth_opt_def
  mergeUpdate_def records_at_def Table_find_def show_int_def show_nat.simps
  Table_addForeignKey_def Let_def inherited_def

lemmas schema_defs =
  applyGlobalLimit_def fieldErrors_def typeErrors_def rangeErrors_def lengthErrors_def
  enumErrors_def is_nullish_def is_buffer_def js_gt_def js_lt_def js_compare_def blob_bytes_def
  blobPath_def mimeTypeOf_def detectMimeType_def plain_rules_def

lemma map_of_obj_replace:
  "map_of (obj_replace k v ob) k' = (if k' = k \<and> map_of ob k \<noteq> None then Some v else map_of ob k')"
  by (induction ob) auto

lemma map_of_insert_index:
  "map_of ob k = None \<Longrightarrow>
   map_of (insert_index n k v ob) k' = (if k' = k then Some v else map_of ob k')"
  by (induction ob) (auto split: option.splits if_splits)

lemma map_of_obj_put:
  "map_of (obj_put ob k v) k' = (if k' = k then Some v else map_of ob k')"
  by (auto simp: obj_put_def map_of_obj_replace map_of_insert_index map_add_def
      split: option.splits)

lemma get_table_set_table:
  "get_table (set_table w n td) m = (if m = n then Some td else get_table w m)"
  by (simp add: get_table_def set_table_def map_of_obj_put)

lemma matchOperator_unrecognized:
  "unrecognized (fst ov) \<Longrightarrow> matchOperator E r key ov = Inr False"
  by (simp add: matchOperator_def unrecognized_def Let_def)

lemma matchOperator_error:
  "matchOperator E (Some r) key ov = Inl e \<Longrightarrow> e = SyntaxError"
  by (auto simp: matchOperator_def with_field_def Let_def split: if_splits jsval.splits)

lemma every_error:
  "(\<And>x e. f x = Inl e \<Longrightarrow> e = SyntaxError) \<Longrightarrow> every f xs = Inl e \<Longrightarrow> e = SyntaxError"
  by (induction xs) (auto split: sum.splits if_splits)

lemma every_member_false:
  "x \<in> set xs \<Longrightarrow> f x = Inr False \<Longrightarrow> every f xs \<noteq> Inr True"
  by (induction xs) (auto split: sum.splits if_splits)

lemma fails_closed_entry:
  assumes "fails_closed v"
  shows "truthy v \<and> typeof v = ''object'' \<and> every (matchOperator E r key) (entries v) = Inr False"
proof (cases v)
  case (Arr xs)
  with assms obtain x rest where xs: "xs = x # rest"
    by (cases xs) (auto simp: fails_closed_def)
  have "unrecognized (show_nat 0)"
    by (simp add: unrecognized_def show_nat.simps)
  then show ?thesis
    using Arr xs by (simp add: matchOperator_unrecognized)
next
  case (Obj kvs)
  with assms obtain kv rest where kvs: "kvs = kv # rest" and "unrecognized (fst kv)"
    by (cases kvs) (auto simp: fails_closed_def)
  then show ?thesis
    using Obj by (simp add: matchOperator_unrecognized)
qed (use assms in \<open>auto simp: fails_closed_def\<close>)

lemma matchesQuery_not_true:
  assumes "(key, v) \<in> set query" and "fails_closed v"
  shows "matchesQuery E r query \<noteq> Inr True"
  unfolding matchesQuery_def
  by (rule every_member_false [OF assms(1)]) (simp add: fails_closed_entry [OF assms(2)])

lemma matchesQuery_error:
  "matchesQuery E (Some r) query = Inl e \<Longrightarrow> e = SyntaxError"
  unfolding matchesQuery_def
  by (erule every_error [rotated])
     (auto simp: with_field_def split: if_splits dest: every_error [rotated] matchOperator_error)

lemma filter_e_none:
  "(\<And>x. f x \<noteq> Inr True) \<Longrightarrow> filter_e f xs = Inr ys \<Longrightarrow> ys = []"
proof (induction xs arbitrary: ys)
  case Nil
  then show ?case by simp
next
  case (Cons x xs)
  from Cons.prems(1) [of x] have "f x = Inr False \<or> (\<exists>e. f x = Inl e)"
    by (cases "f x") auto
  with Cons show ?case
    by (auto split: sum.splits)
qed

lemma filter_e_all:
  "(\<And>x. f x \<noteq> Inr False) \<Longrightarrow> filter_e f xs = Inr ys \<Longrightarrow> ys = xs"
proof (induction xs arbitrary: ys)
  case Nil
  then show ?case by simp
next
  case (Cons x xs)
  from Cons.prems(1) [of x] have "f x = Inr True \<or> (\<exists>e. f x = Inl e)"
    by (cases "f x") auto
  with Cons show ?case
    by (auto split: sum.splits)
qed


section \<open>Lemmas on insertion and update\<close>

lemma set_table_frame [simp]:
  "tick (set_table w n td) = tick w" "files (set_table w n td) = files w"
  "writes (set_table w n td) = writes w" "maxBinarySize (set_table w n td) = maxBinarySize w"
  by (simp_all add: set_table_def)

lemma get_table_frame [simp]:
  "get_table (w\<lparr>tick := t\<rparr>) n = get_table w n"
  "get_table (w\<lparr>files := f\<rparr>) n = get_table w n"
  "get_table (w\<lparr>writes := ws\<rparr>) n = get_table w n"
  by (simp_all add: get_table_def)

lemma every_member_not_true:
  "x \<in> set xs \<Longrightarrow> f x \<noteq> Inr True \<Longrightarrow> every f xs \<noteq> Inr True"
  by (induction xs) (auto split: sum.splits if_splits)

lemma filter_e_member:
  "filter_e f xs = Inr ys \<Longrightarrow> y \<in> set ys \<Longrightarrow> y \<in> set xs \<and> f y = Inr True"
  by (induction xs arbitrary: ys) (auto split: sum.splits if_splits)

lemma matchesQuery_undefined_record:
  assumes "map_of query k = Some v" and "typeof v \<noteq> ''object''"
  shows "matchesQuery E None query \<noteq> Inr True"
proof -
  from assms(1) have "(k, v) \<in> set query" by (rule map_of_SomeD)
  then show ?thesis
    unfolding matchesQuery_def
    by (rule every_member_not_true) (simp add: assms(2) with_field_def)
qed

lemma find_positions_in_range:
  assumes "find_positions E T query w = Inr ps" and "get_table w (name T) = Some td"
    and "p \<in> set ps"
  shows "p < length (records td)"
proof (rule ccontr)
  assume "\<not> p < length (records td)"
  then have none: "nth_opt (records td) p = None" by (simp add: nth_opt_def)
  show False
  proof (cases "List.find (\<lambda>field. map_of (indexes td) field \<noteq> None) (map fst query)")
    case None
    with assms have "p \<in> set [0..<length (records td)]"
      by (auto simp: find_positions_def Let_def dest: filter_e_member)
    with \<open>\<not> p < length (records td)\<close> show False by simp
  next
    case (Some f)
    show False
    proof (cases "f \<noteq> [] \<and> typeof (js_get query f) \<noteq> ''object''")
      case False
      with Some assms have "p \<in> set [0..<length (records td)]"
        by (auto simp: find_positions_def Let_def dest: filter_e_member)
      with \<open>\<not> p < length (records td)\<close> show False by simp
    next
      case True
      from Some have "f \<in> set (map fst query)"
        by (auto simp: find_Some_iff)
      then obtain v where v: "map_of query f = Some v"
        by (cases "map_of query f") (auto simp: map_of_eq_None_iff)
      with True have "typeof v \<noteq> ''object''" by (simp add: js_get_def)
      from matchesQuery_undefined_record [OF v this]
      have "matchesQuery E None query \<noteq> Inr True" .
      moreover from Some True assms have "matchesQuery E (nth_opt (records td) p) query = Inr True"
        by (auto simp: find_positions_def Let_def split: sum.splits dest: filter_e_member)
      ultimately show False using none by simp
    qed
  qed
qed

lemma updateEach_stops:
  assumes "get_table w (name T) = Some td"
    and "distinct (pre @ [p])"
    and "\<forall>q \<in> set (pre @ [p]). q < length (records td)"
    and "\<forall>j<length pre. validateData E T
           (mergeUpdate (records td ! (pre ! j)) upd (clock E (tick w + 2 * j))) = Inr []"
    and "validateData E T
           (mergeUpdate (records td ! p) upd (clock E (tick w + 2 * length pre))) = Inr errors"
    and "errors \<noteq> []"
  shows "\<exists>w' td'. updateEach E T upd (pre @ p # post) w
             = (w', Inl (Error (''Validation failed: '' @ join '', '' errors)))
           \<and> get_table w' (name T) = Some td'
           \<and> length (records td') = length (records td)
           \<and> (\<forall>j<length pre. records td' ! (pre ! j)
                 = mergeUpdate (records td ! (pre ! j)) upd (clock E (tick w + 2 * j + 1)))
           \<and> (\<forall>q. q \<notin> set pre \<longrightarrow> records td' ! q = records td ! q)"
  using assms
proof (induction pre arbitrary: w td)
  case Nil
  then show ?case by (simp add: nth_opt_def)
next
  case (Cons a pre)
  let ?m = "mergeUpdate (records td ! a) upd (clock E (tick w + 1))"
  let ?td2 = "td\<lparr>records := (records td)[a := ?m]\<rparr>"
  let ?w2 = "set_table (w\<lparr>tick := tick w + 2\<rparr>) (name T) ?td2"
  from Cons.prems(3) have a: "a < length (records td)" by simp
  from Cons.prems(4) have va: "validateData E T (mergeUpdate (records td ! a) upd (clock E (tick w))) = Inr []"
    by (auto dest: spec [of _ 0])
  have step: "updateEach E T upd ((a # pre) @ p # post) w = updateEach E T upd (pre @ p # post) ?w2"
    using Cons.prems(1) a va by (simp add: nth_opt_def)
  have g2: "get_table ?w2 (name T) = Some ?td2"
    by (simp add: get_table_set_table)
  have d2: "distinct (pre @ [p])" using Cons.prems(2) by simp
  have r2: "\<forall>q \<in> set (pre @ [p]). q < length (records ?td2)"
    using Cons.prems(3) by simp
  have same: "records ?td2 ! q = records td ! q" if "q \<noteq> a" for q
    using that by simp
  have v2: "\<forall>j<length pre. validateData E T
           (mergeUpdate (records ?td2 ! (pre ! j)) upd (clock E (tick ?w2 + 2 * j))) = Inr []"
  proof (intro allI impI)
    fix j assume j: "j < length pre"
    then have "pre ! j \<noteq> a" using Cons.prems(2) by (auto simp: in_set_conv_nth)
    moreover from Cons.prems(4) j have "validateData E T
           (mergeUpdate (records td ! ((a # pre) ! Suc j)) upd (clock E (tick w + 2 * Suc j))) = Inr []"
      by auto
    ultimately show "validateData E T
           (mergeUpdate (records ?td2 ! (pre ! j)) upd (clock E (tick ?w2 + 2 * j))) = Inr []"
      by (simp add: add.commute add.left_commute)
  qed
  have pa: "p \<noteq> a" using Cons.prems(2) by auto
  have i2: "validateData E T
           (mergeUpdate (records ?td2 ! p) upd (clock E (tick ?w2 + 2 * length pre))) = Inr errors"
    using Cons.prems(5) pa by (simp add: add.commute add.left_commute)
  from Cons.IH [OF g2 d2 r2 v2 i2 Cons.prems(6)]
  obtain w' td' where res: "updateEach E T upd (pre @ p # post) ?w2
             = (w', Inl (Error (''Validation failed: '' @ join '', '' errors)))"
    and g': "get_table w' (name T) = Some td'"
    and len: "length (records td') = length (records ?td2)"
    and patched: "\<forall>j<length pre. records td' ! (pre ! j)
                 = mergeUpdate (records ?td2 ! (pre ! j)) upd (clock E (tick ?w2 + 2 * j + 1))"
    and rest: "\<forall>q. q \<notin> set pre \<longrightarrow> records td' ! q = records ?td2 ! q"
    by blast
  have "\<forall>j<length (a # pre). records td' ! ((a # pre) ! j)
                 = mergeUpdate (records td ! ((a # pre) ! j)) upd (clock E (tick w + 2 * j + 1))"
  proof (intro allI impI)
    fix j assume j: "j < length (a # pre)"
    show "records td' ! ((a # pre) ! j)
                 = mergeUpdate (records td ! ((a # pre) ! j)) upd (clock E (tick w + 2 * j + 1))"
    proof (cases j)
      case 0
      have "a \<notin> set pre" using Cons.prems(2) by simp
      with rest have "records td' ! a = records ?td2 ! a" by blast
      with a 0 show ?thesis by simp
    next
      case (Suc k)
      with j have k: "k < length pre" by simp
      then have "pre ! k \<noteq> a" using Cons.prems(2) by (auto simp: in_set_conv_nth)
      with patched k Suc show ?thesis by (simp add: add.commute add.left_commute)
    qed
  qed
  moreover have "\<forall>q. q \<notin> set (a # pre) \<longrightarrow> records td' ! q = records td ! q"
    using rest by simp
  ultimately show ?case
    using step res g' len by simp
qed


lemma people_world_eq:
  "people_world E =
     \<lparr>tables = [(''people'', people_data E)], maxBinarySize = 10485760, files = (\<lambda>p. None),
      writes = [], tick = 4\<rparr>"
  by (simp add: people_world_def people_raw_def people_data_def person_A_def person_B_def
      Table_insertMany_def model_defs numeral_2_eq_2 numeral_3_eq_3)

lemma people_table: "get_table (people_world E) ''people'' = Some (people_data E)"
  by (simp add: people_world_eq get_table_def)

lemma people_valid_A:
  "validateData E people (mergeUpdate (person_A E) member_patch t) = Inr []"
  by (simp add: people_def person_schema_def person_A_def member_patch_def model_defs schema_defs)

lemma people_invalid_B:
  "validateData E people (mergeUpdate (person_B E) member_patch t) = Inr [age_message]"
  by (simp add: people_def person_schema_def person_B_def member_patch_def age_message_def
      model_defs schema_defs)

lemma people_found: "find_positions E people [] (people_world E) = Inr [0, 1]"
  by (simp add: people_world_eq people_def people_data_def find_positions_def get_table_def
      matchesQuery_def upt_rec)

lemma validateAll_passes:
  "validateAll E T docs = Inr u \<Longrightarrow> d \<in> set docs \<Longrightarrow> validateData E T d = Inr []"
  by (induction docs) (auto split: sum.splits if_splits)

lemma ensureTableExists_keeps:
  "get_table w n = Some td \<Longrightarrow> get_table (ensureTableExists m w) n = Some td"
  by (auto simp: ensureTableExists_def get_table_set_table split: option.splits)

lemma ensureTableExists_frame:
  "files (ensureTableExists m w) = files w \<and> writes (ensureTableExists m w) = writes w
   \<and> tick (ensureTableExists m w) = tick w"
  by (simp add: ensureTableExists_def set_table_def split: option.splits)

lemma checkForeignKeys_pass:
  "checkForeignKeys fs d w = (w', Inr u) \<Longrightarrow> w' = w"
  by (induction fs) (auto split: if_splits)

lemma checkForeignKeys_outcome:
  "snd (checkForeignKeys fs d w) = snd (checkForeignKeys fs d w0)"
  by (induction fs) auto

lemma checkForeignKeys_frame:
  "checkForeignKeys fs d w = (w', r) \<Longrightarrow>
   files w' = files w \<and> writes w' = writes w \<and> tick w' = tick w
   \<and> (get_table w n = Some td \<longrightarrow> get_table w' n = Some td)"
  by (induction fs) (auto simp: ensureTableExists_frame ensureTableExists_keeps split: if_splits)

lemma checkAllForeignKeys_fails:
  assumes "d \<in> set docs" and "snd (checkForeignKeys fs d w0) \<noteq> Inr ()"
  shows "\<exists>w' e. checkAllForeignKeys (Some fs) docs w = (w', Inl e)
           \<and> files w' = files w \<and> writes w' = writes w \<and> tick w' = tick w
           \<and> (get_table w n = Some td \<longrightarrow> get_table w' n = Some td)"
  using assms(1)
proof (induction docs arbitrary: w)
  case Nil
  then show ?case by simp
next
  case (Cons x docs)
  obtain w1 r where step: "checkForeignKeys fs x w = (w1, r)"
    by (cases "checkForeignKeys fs x w")
  show ?case
  proof (cases r)
    case (Inl e)
    with step checkForeignKeys_frame [OF step, of n td] show ?thesis by simp
  next
    case (Inr u)
    with step have same: "w1 = w" by (simp add: checkForeignKeys_pass)
    have "x \<noteq> d"
      using step Inr assms(2) checkForeignKeys_outcome [of fs d w0 w] by auto
    with Cons.prems have "d \<in> set docs" by simp
    from Cons.IH [OF this, of w] step Inr same show ?thesis by simp
  qed
qed


section \<open>Lemmas on validation and the blob store\<close>

lemma applyGlobalLimit_fst [simp]: "fst (applyGlobalLimit g fr) = fst fr"
  by (simp add: applyGlobalLimit_def)







lemma obj_replace_keys: "map fst (obj_replace k v ob) = map fst ob"
  by (induction ob) auto

lemma insert_index_keys:
  "set (map fst (insert_index n k v ob)) = insert k (set (map fst ob))"
proof (induction ob)
  case Nil
  then show ?case by simp
next
  case (Cons a ob)
  obtain k' v' where a: "a = (k', v')" by (cases a)
  show ?case
  proof (cases "array_index k'")
    case None
    with a show ?thesis by auto
  next
    case (Some m)
    with a Cons.IH show ?thesis by (cases "m < n") auto
  qed
qed

lemma insert_index_distinct:
  "k \<notin> set (map fst ob) \<Longrightarrow> distinct (map fst ob) \<Longrightarrow> distinct (map fst (insert_index n k v ob))"
proof (induction ob)
  case Nil
  then show ?case by simp
next
  case (Cons a ob)
  then have "distinct (map fst (insert_index n k v ob))" by simp
  moreover have "fst a \<notin> set (map fst (insert_index n k v ob))"
    using Cons.prems unfolding insert_index_keys by auto
  ultimately show ?case using Cons.prems by (cases a) (auto split: option.splits)
qed

lemma obj_put_distinct:
  "distinct (map fst ob) \<Longrightarrow> distinct (map fst (obj_put ob k v))"
  by (auto simp: obj_put_def obj_replace_keys insert_index_distinct map_of_eq_None_iff
      split: option.splits)

lemma map_of_obj_assign:
  "distinct (map fst src) \<Longrightarrow>
   map_of (obj_assign t src) k = (case map_of src k of None \<Rightarrow> map_of t k | Some v \<Rightarrow> Some v)"
proof (induction src arbitrary: t)
  case Nil
  then show ?case by simp
next
  case (Cons kv src)
  obtain k' v' where kv: "kv = (k', v')" by (cases kv)
  with Cons.prems have "map_of src k' = None" and "distinct (map fst src)"
    by (auto simp: map_of_eq_None_iff)
  with Cons.IH [of "obj_put t k' v'"] kv show ?case
    by (auto simp: map_of_obj_put split: option.splits)
qed

lemma storeFields_single:
  assumes "onlyBinaryField defn f" and "js_get data f = Buf bs"
  shows "\<exists>w' p. storeFields E dir data defn processed w = (w', Inr p)
           \<and> files w' = (if list_ex (\<lambda>fr. r_type (snd fr) = Some ''binary'') defn
                          then (files w)(blobPath dir (sha256hex E bs) := Some bs) else files w)
           \<and> tables w' = tables w
           \<and> map_of p f = (if list_ex (\<lambda>fr. r_type (snd fr) = Some ''binary'') defn
                            then Some (Str (''binary:'' @ sha256hex E bs)) else map_of processed f)
           \<and> (distinct (map fst processed) \<longrightarrow> distinct (map fst p))"
  using assms(1)
proof (induction defn arbitrary: processed w)
  case Nil
  then show ?case by simp
next
  case (Cons fr defn)
  obtain g rg where fr: "fr = (g, rg)" by (cases fr)
  from Cons.prems have rest: "onlyBinaryField defn f" by (simp add: onlyBinaryField_def)
  show ?case
  proof (cases "r_type rg = Some ''binary''")
    case False
    with Cons.IH [OF rest, of processed w] fr show ?thesis by auto
  next
    case True
    with Cons.prems fr have g: "g = f" by (simp add: onlyBinaryField_def)
    let ?path = "blobPath dir (sha256hex E bs)"
    let ?w = "w\<lparr>files := (files w)(?path := Some bs), writes := writes w @ [?path]\<rparr>"
    let ?p = "obj_put (obj_put processed f (Str (''binary:'' @ sha256hex E bs)))
                (f @ ''_metadata'')
                (Obj [(''size'', js_length (Buf bs)), (''hash'', Str (sha256hex E bs)),
                      (''mimeType'', Str (mimeTypeOf (Buf bs)))])"
    have step: "storeFields E dir data (fr # defn) processed w = storeFields E dir data defn ?p ?w"
      using True g fr assms(2) by (simp add: blob_bytes_def Let_def)
    have pf: "map_of ?p f = Some (Str (''binary:'' @ sha256hex E bs))"
      by (simp add: map_of_obj_put)
    have pd: "distinct (map fst processed) \<longrightarrow> distinct (map fst ?p)"
      by (simp add: obj_put_distinct)
    from Cons.IH [OF rest, of ?p ?w] step pf pd True fr show ?thesis
      by auto
  qed
qed


lemma insert_stores_blob:
  assumes "schema T = Some S" and "map_of S f = Some r" and "r_type r = Some ''binary''"
    and "onlyBinaryField S f" and "f \<noteq> ''createdAt''"
    and "js_get d f = Buf bs" and "distinct (map fst d)"
    and "Table_insert E T d w = (w', Inr record)"
  shows "js_get record f = Str (''binary:'' @ sha256hex E bs)
       \<and> files w' = (files w)(blobPath (binaryDir T) (sha256hex E bs) := Some bs)"
proof -
  from assms(2) have "(f, r) \<in> set S" by (rule map_of_SomeD)
  with assms(3) have hasb: "list_ex (\<lambda>fr. r_type (snd fr) = Some ''binary'') S"
    by (force simp: list_ex_iff)
  from storeFields_single [OF assms(4) assms(6), of E "binaryDir T" d w] hasb assms(7)
  obtain w1 p where st: "storeFields E (binaryDir T) d S d w = (w1, Inr p)"
    and fl: "files w1 = (files w)(blobPath (binaryDir T) (sha256hex E bs) := Some bs)"
    and pf: "map_of p f = Some (Str (''binary:'' @ sha256hex E bs))"
    and pd: "distinct (map fst p)"
    by auto
  have sb: "storeBinaryData E T d w = (w1, Inr p)"
    using st assms(1) by (simp add: storeBinaryData_def)
  have val: "validateData E T d = Inr []"
  proof (cases "validateData E T d")
    case (Inl e)
    with assms(8) show ?thesis by (simp add: Table_insert_def)
  next
    case (Inr errors)
    with assms(8) show ?thesis by (cases "errors = []") (simp_all add: Table_insert_def)
  qed
  obtain td where g: "get_table w1 (name T) = Some td"
  proof (cases "get_table w1 (name T)")
    case None
    with assms(8) val sb have False by (simp add: Table_insert_def Let_def)
    then show ?thesis ..
  next
    case (Some td)
    then show ?thesis by (rule that)
  qed
  obtain td' outcome where ap: "appendRecord E (newRecord E p (tick w1)) td = (td', outcome)"
    by (cases "appendRecord E (newRecord E p (tick w1)) td")
  have "w' = set_table (w1\<lparr>tick := tick w1 + 2\<rparr>) (name T) td' \<and> record = newRecord E p (tick w1)"
    using assms(8) val sb g ap by (cases outcome) (auto simp: Table_insert_def Let_def)
  then have w': "w' = set_table (w1\<lparr>tick := tick w1 + 2\<rparr>) (name T) td'"
    and rec: "record = newRecord E p (tick w1)"
    by simp_all
  have "map_of record f = Some (Str (''binary:'' @ sha256hex E bs))"
    using assms(5) pf pd by (simp add: rec newRecord_def map_of_obj_put map_of_obj_assign)
  then have "js_get record f = Str (''binary:'' @ sha256hex E bs)"
    by (simp add: js_get_def)
  moreover have "files w' = (files w)(blobPath (binaryDir T) (sha256hex E bs) := Some bs)"
    using fl by (simp add: w')
  ultimately show ?thesis by simp
qed


lemma retrieveFields_error:
  "retrieveFields dir record defn result w = Inl e \<Longrightarrow> e = TypeError"
  by (induction defn arbitrary: result)
     (auto simp: js_replace_def split: if_splits sum.splits jsval.splits)

lemma retrieveBinaryData_error:
  "retrieveBinaryData T record w = Inl e \<Longrightarrow> e = TypeError"
  by (auto simp: retrieveBinaryData_def split: option.splits dest: retrieveFields_error)

lemma similarEach_error:
  "similarEach E T field buffer tolerance sourceHash w recs = Inl e \<Longrightarrow> e = TypeError"
proof (induction recs)
  case Nil
  then show ?case by simp
next
  case (Cons r recs)
  define rest where "rest = similarEach E T field buffer tolerance sourceHash w recs"
  have ih: "e = TypeError" if "rest = Inl e"
    using that Cons.IH by (simp add: rest_def)
  have ih': "e = TypeError" if "map_sum id f rest = Inl e" for f :: "obj list \<Rightarrow> obj list"
    using that ih by (cases rest) auto
  from Cons.prems show ?case
    unfolding similarEach.simps rest_def [symmetric]
    by (auto simp: js_replace_def split: if_splits sum.splits jsval.splits option.splits
        dest: retrieveBinaryData_error ih ih')
qed



section \<open>Lemmas on the indexes\<close>


lemma rebuildIndexes_outcome:
  "rebuildIndexes E kept ixs = (ixs', outcome) \<Longrightarrow> map fst ixs' = map fst ixs"
  by (induction ixs arbitrary: ixs' outcome) (auto split: prod.splits sum.splits)

text \<open>
  With an index on \<^verbatim>\<open>name\<close>, the insert of a document named \<^verbatim>\<open>constructor\<close> that
  passes validation raises \<^verbatim>\<open>TypeError\<close> at line 215; the blob is written, the record is
  in the table, and the index has no position for it.
\<close>

lemma insert_inherited_key_raises:
  "snd (Table_insert E (sized_images 100 (Some 200)) constructor_doc (catalog_db E)) = Inl TypeError
   \<and> map_option (\<lambda>td. (map (\<lambda>r. js_get r ''name'') (records td), indexes td))
         (get_table (fst (Table_insert E (sized_images 100 (Some 200)) constructor_doc
                            (catalog_db E))) ''images'')
       = Some ([Str ''constructor''], [(''name'', [])])
   \<and> \<not> indexKeysPlain E (sized_images 100 (Some 200)) constructor_doc (catalog_db E)"
  by (simp add: catalog_db_def sized_images_def sized_schema_def constructor_doc_def
      indexKeysPlain_def storedRecord_def model_defs schema_defs)
section \<open>The claims\<close>

text \<open>
  C1, index consistency, does not hold through \<^verbatim>\<open>update\<close>: the insert registers
  position 0 under the key \<^verbatim>\<open>20\<close> of the index on \<^verbatim>\<open>age\<close>; the update changes the age of
  that record to 30 and leaves the index as it was, so the index lists position 0 under
  20, nothing under 30, and \<^verbatim>\<open>find({age: 30})\<close>, which goes through the index, misses
  the record.
\<close>

theorem update_leaves_index_stale:
  "map_option indexes (get_table (stale_index_world E) ''users'')
     = Some [(''age'', [(''20'', [0])])]
   \<and> map_option (\<lambda>td. map (\<lambda>r. js_get r ''age'') (records td))
        (get_table (stale_index_world E) ''users'') = Some [Num 30]
   \<and> Table_find E users [(''age'', Num 30)] (stale_index_world E) = Inr []"
  by (simp add: stale_index_world_def users_def user_A_def model_defs)

text \<open>
  C2, batch atomicity of \<^verbatim>\<open>insertMany\<close>: all documents are validated, then all are
  checked against the foreign keys, and only then is any inserted. When a document of
  the batch fails validation or its foreign-key check, the call fails, and the table's
  records, the blob files, the writes and the counter of identifiers are as before.
\<close>

theorem insertMany_all_or_nothing:
  assumes "\<exists>d \<in> set documents. failsValidation E T d \<or> failsForeignKeyCheck T w d"
  shows "\<exists>w' e. Table_insertMany E T documents w = (w', Inl e)
           \<and> records_of w' (name T) = records_of w (name T)
           \<and> files w' = files w \<and> writes w' = writes w \<and> tick w' = tick w"
proof (cases "validateAll E T documents")
  case (Inl e)
  then show ?thesis by (simp add: Table_insertMany_def)
next
  case (Inr u)
  with assms validateAll_passes obtain d where d: "d \<in> set documents"
    and fk: "failsForeignKeyCheck T w d"
    by (auto simp: failsValidation_def)
  show ?thesis
  proof (cases "get_table w (name T)")
    case None
    from d obtain x rest where "documents = x # rest" by (cases documents) auto
    with None Inr show ?thesis by (simp add: Table_insertMany_def)
  next
    case (Some td)
    with fk have "snd (checkForeignKeys (foreignKeys td) d w) \<noteq> Inr ()"
      by (auto simp: failsForeignKeyCheck_def split: prod.splits sum.splits)
    from checkAllForeignKeys_fails [OF d this, of w "name T" td] Some Inr
    show ?thesis by (auto simp: Table_insertMany_def records_of_def)
  qed
qed

theorem insertMany_all_or_nothing_witness:
  "\<forall>E. (\<exists>d \<in> set batch. failsValidation E people d \<or> failsForeignKeyCheck people (people_world E) d)
      \<and> (\<exists>w' e. Table_insertMany E people batch (people_world E) = (w', Inl e)
             \<and> records_of w' ''people'' = Some [person_A E, person_B E])"
proof
  fix E
  have h: "\<exists>d \<in> set batch. failsValidation E people d \<or> failsForeignKeyCheck people (people_world E) d"
    by (simp add: batch_def failsValidation_def people_def person_schema_def model_defs
        schema_defs)
  have "records_of (people_world E) (name people) = Some [person_A E, person_B E]"
    by (simp add: records_of_def people_table people_def people_data_def)
  with insertMany_all_or_nothing [OF h] h
  show "(\<exists>d \<in> set batch. failsValidation E people d \<or> failsForeignKeyCheck people (people_world E) d)
      \<and> (\<exists>w' e. Table_insertMany E people batch (people_world E) = (w', Inl e)
             \<and> records_of w' ''people'' = Some [person_A E, person_B E])"
    by (auto simp: people_def)
qed

text \<open>
  C3, foreign keys on single insert, does not hold: with the foreign key
  \<^verbatim>\<open>authorId\<close> referencing \<^verbatim>\<open>users._id\<close> declared and no user in the database,
  \<^verbatim>\<open>insert\<close> of a post with \<^verbatim>\<open>authorId: 'non-existent-id'\<close> returns the new record and
  the table holds it.
\<close>

theorem insert_ignores_foreign_keys:
  "map_option foreignKeys (get_table blog_world ''posts'')
     = Some [(''authorId'', \<lparr>ref_table = ''users'', ref_field = ''_id''\<rparr>)]
   \<and> map_option records (get_table blog_world ''users'') = Some []
   \<and> snd (Table_insert E posts orphan_post blog_world)
       = Inr [(''_id'', Str (fresh_id E 0)), (''title'', Str ''Invalid Post''),
              (''authorId'', Str ''non-existent-id''), (''createdAt'', Str (clock E 1))]
   \<and> map_option (\<lambda>td. length (records td))
        (get_table (fst (Table_insert E posts orphan_post blog_world)) ''posts'') = Some 1"
  by (simp add: blog_world_def posts_def orphan_post_def model_defs)

text \<open>
  C4, deduplication of blobs, as amended: two successful inserts whose binary field
  holds the same bytes give two records with the same digest in that field; the first
  leaves the bytes in the one file named by the digest, and the second leaves every
  file as it is. (The field is the schema's only binary field and is not
  \<^verbatim>\<open>createdAt\<close>, which \<^verbatim>\<open>insert\<close> overwrites.) The second insert does write the file
  again: \<^verbatim>\<open>_storeBinaryData\<close> calls \<^verbatim>\<open>fs.writeFile\<close> without looking for the file.
\<close>

theorem same_bytes_one_blob:
  assumes "schema T = Some S" and "map_of S f = Some r" and "r_type r = Some ''binary''"
    and "onlyBinaryField S f" and "f \<noteq> ''createdAt''"
    and "js_get d1 f = Buf bs" and "js_get d2 f = Buf bs"
    and "distinct (map fst d1)" and "distinct (map fst d2)"
    and "Table_insert E T d1 w = (w1, Inr r1)" and "Table_insert E T d2 w1 = (w2, Inr r2)"
  shows "js_get r1 f = Str (''binary:'' @ sha256hex E bs)
       \<and> js_get r2 f = js_get r1 f
       \<and> files w1 = (files w)(blobPath (binaryDir T) (sha256hex E bs) := Some bs)
       \<and> files w2 = files w1"
proof -
  from insert_stores_blob [OF assms(1-5) assms(6) assms(8) assms(10)]
  have a: "js_get r1 f = Str (''binary:'' @ sha256hex E bs)"
    and b: "files w1 = (files w)(blobPath (binaryDir T) (sha256hex E bs) := Some bs)"
    by simp_all
  from insert_stores_blob [OF assms(1-5) assms(7) assms(9) assms(11)]
  have c: "js_get r2 f = Str (''binary:'' @ sha256hex E bs)"
    and d: "files w2 = (files w1)(blobPath (binaryDir T) (sha256hex E bs) := Some bs)"
    by simp_all
  from b d have "files w2 = files w1" by simp
  with a b c show ?thesis by simp
qed

theorem same_bytes_one_blob_witness:
  "\<forall>E. schema images = Some stored_schema
      \<and> map_of stored_schema ''data'' = Some stored_rules
      \<and> r_type stored_rules = Some ''binary''
      \<and> onlyBinaryField stored_schema ''data''
      \<and> js_get first_image ''data'' = Buf [68, 117, 112]
      \<and> js_get second_image ''data'' = Buf [68, 117, 112]
      \<and> distinct (map fst first_image) \<and> distinct (map fst second_image)
      \<and> (\<exists>r1 r2. Table_insert E images first_image gallery0 = (gallery1 E, Inr r1)
            \<and> Table_insert E images second_image (gallery1 E) = (gallery2 E, Inr r2)
            \<and> js_get r1 ''data'' = Str (''binary:'' @ sha256hex E [68, 117, 112])
            \<and> js_get r2 ''data'' = js_get r1 ''data''
            \<and> files (gallery1 E) = (files gallery0)(dup_path E := Some [68, 117, 112])
            \<and> files (gallery2 E) = files (gallery1 E))"
proof
  fix E
  have h1: "schema images = Some stored_schema"
    by (simp add: images_def stored_schema_def FlatDB_table_def FlatDB_connect_def)
  have h2: "map_of stored_schema ''data'' = Some stored_rules"
    by (simp add: stored_schema_def stored_rules_def image_schema_def applyGlobalLimit_def
        plain_rules_def)
  have h3: "r_type stored_rules = Some ''binary''" by (simp add: stored_rules_def)
  have h4: "onlyBinaryField stored_schema ''data''"
    by (simp add: onlyBinaryField_def stored_schema_def image_schema_def applyGlobalLimit_def)
  have h5: "''data'' \<noteq> ''createdAt''" by simp
  have h6: "js_get first_image ''data'' = Buf [68, 117, 112]"
    by (simp add: first_image_def js_get_def)
  have h7: "js_get second_image ''data'' = Buf [68, 117, 112]"
    by (simp add: second_image_def js_get_def)
  have h8: "distinct (map fst first_image)" by (simp add: first_image_def)
  have h9: "distinct (map fst second_image)" by (simp add: second_image_def)
  have "\<exists>r. snd (Table_insert E images first_image gallery0) = Inr r"
    by (simp add: gallery0_def images_def image_schema_def first_image_def model_defs schema_defs)
  then obtain r1 where h10: "Table_insert E images first_image gallery0 = (gallery1 E, Inr r1)"
    by (auto simp: gallery1_def prod_eq_iff)
  have "\<exists>r. snd (Table_insert E images second_image (gallery1 E)) = Inr r"
    by (simp add: gallery1_def gallery0_def images_def image_schema_def first_image_def
        second_image_def model_defs schema_defs)
  then obtain r2 where h11: "Table_insert E images second_image (gallery1 E) = (gallery2 E, Inr r2)"
    by (auto simp: gallery2_def prod_eq_iff)
  have dir: "blobPath (binaryDir images) (sha256hex E [68, 117, 112]) = dup_path E"
    by (simp add: dup_path_def images_def FlatDB_table_def)
  from same_bytes_one_blob [OF h1 h2 h3 h4 h5 h6 h7 h8 h9 h10 h11] h10 h11
  have "\<exists>r1 r2. Table_insert E images first_image gallery0 = (gallery1 E, Inr r1)
            \<and> Table_insert E images second_image (gallery1 E) = (gallery2 E, Inr r2)
            \<and> js_get r1 ''data'' = Str (''binary:'' @ sha256hex E [68, 117, 112])
            \<and> js_get r2 ''data'' = js_get r1 ''data''
            \<and> files (gallery1 E) = (files gallery0)(dup_path E := Some [68, 117, 112])
            \<and> files (gallery2 E) = files (gallery1 E)"
    unfolding dir by blast
  with h1 h2 h3 h4 h6 h7 h8 h9
  show "schema images = Some stored_schema
      \<and> map_of stored_schema ''data'' = Some stored_rules
      \<and> r_type stored_rules = Some ''binary''
      \<and> onlyBinaryField stored_schema ''data''
      \<and> js_get first_image ''data'' = Buf [68, 117, 112]
      \<and> js_get second_image ''data'' = Buf [68, 117, 112]
      \<and> distinct (map fst first_image) \<and> distinct (map fst second_image)
      \<and> (\<exists>r1 r2. Table_insert E images first_image gallery0 = (gallery1 E, Inr r1)
            \<and> Table_insert E images second_image (gallery1 E) = (gallery2 E, Inr r2)
            \<and> js_get r1 ''data'' = Str (''binary:'' @ sha256hex E [68, 117, 112])
            \<and> js_get r2 ''data'' = js_get r1 ''data''
            \<and> files (gallery1 E) = (files gallery0)(dup_path E := Some [68, 117, 112])
            \<and> files (gallery2 E) = files (gallery1 E))"
    by blast
qed

text \<open>
  The claim as stated fails in its last part, "without rewriting": the blob file is
  written by the first insert and written again by the second.
\<close>

theorem repeated_store_writes_again:
  "\<forall>E. writes gallery0 = [] \<and> writes (gallery1 E) = [dup_path E]
      \<and> writes (gallery2 E) = [dup_path E, dup_path E]"
  by (simp add: gallery2_def gallery1_def gallery0_def dup_path_def images_def image_schema_def
      first_image_def second_image_def model_defs schema_defs)




text \<open>
  C6, accumulators of \<^verbatim>\<open>$group\<close>, does not hold: the stage partitions by the field and
  gives each group its key, its count and its documents, and that is all. The
  accumulator \<^verbatim>\<open>total: { $sum: 'price' }\<close> declared in the stage is not read, and the
  output record has no \<^verbatim>\<open>total\<close>. For every stage and input, the output is the same
  whatever else the \<^verbatim>\<open>$group\<close> object declares beside \<^verbatim>\<open>_id\<close>.
\<close>

theorem group_ignores_accumulators:
  "Table_aggregate E products [sum_by_category] shop_world
     = Inr [[(''_id'', Str ''electronics''), (''count'', Num 2),
             (''docs'', Arr [Obj laptop, Obj phone])]]
   \<and> groupStage E (spec\<lparr>g_others := declared\<rparr>) result = groupStage E spec result"
  by (simp add: Table_aggregate_def shop_world_def products_def sum_by_category_def noStage_def
      applyStage_def groupStage_def groupObject_def laptop_def phone_def model_defs)

text \<open>
  C7, update atomicity, as amended: \<^verbatim>\<open>update\<close> validates and assigns the matched
  records one after the other. When the merged candidate of a matched record fails
  validation, the call raises the validation error of that record; that record, the
  records matched after it and the records not matched are as before, and the records
  matched before it (whose candidates passed) have the patch and the new
  \<^verbatim>\<open>updatedAt\<close>. The positions \<open>ps\<close> are those \<^verbatim>\<open>find\<close> returns, in its order.
\<close>

theorem update_stops_at_first_invalid:
  assumes "find_positions E T query w = Inr ps"
    and "get_table w (name T) = Some td"
    and "distinct ps"
    and "i < length ps"
    and "\<forall>j<i. validateData E T
           (mergeUpdate (records td ! (ps ! j)) upd (clock E (tick w + 2 * j))) = Inr []"
    and "validateData E T
           (mergeUpdate (records td ! (ps ! i)) upd (clock E (tick w + 2 * i))) = Inr errors"
    and "errors \<noteq> []"
  shows "\<exists>w' td'. Table_update E T query upd w
             = (w', Inl (Error (''Validation failed: '' @ join '', '' errors)))
           \<and> get_table w' (name T) = Some td'
           \<and> length (records td') = length (records td)
           \<and> (\<forall>j<i. records td' ! (ps ! j)
                 = mergeUpdate (records td ! (ps ! j)) upd (clock E (tick w + 2 * j + 1)))
           \<and> (\<forall>q. q \<notin> set (take i ps) \<longrightarrow> records td' ! q = records td ! q)
           \<and> records td' ! (ps ! i) = records td ! (ps ! i)"
proof -
  let ?pre = "take i ps" and ?post = "drop (Suc i) ps"
  have split: "ps = ?pre @ ps ! i # ?post"
    using assms(4) by (simp add: id_take_nth_drop)
  have len: "length ?pre = i" using assms(4) by simp
  have d: "distinct (?pre @ [ps ! i])"
  proof -
    from assms(3) split have "distinct (?pre @ ps ! i # ?post)" by simp
    then show ?thesis by simp
  qed
  have r: "\<forall>q \<in> set (?pre @ [ps ! i]). q < length (records td)"
  proof
    fix q assume "q \<in> set (?pre @ [ps ! i])"
    then have "q \<in> set ps" using assms(4) by (auto dest: in_set_takeD)
    with assms(1,2) show "q < length (records td)" by (rule find_positions_in_range)
  qed
  have v: "\<forall>j<length ?pre. validateData E T
           (mergeUpdate (records td ! (?pre ! j)) upd (clock E (tick w + 2 * j))) = Inr []"
    using assms(5) len by simp
  have iv: "validateData E T
           (mergeUpdate (records td ! (ps ! i)) upd (clock E (tick w + 2 * length ?pre))) = Inr errors"
    using assms(6) len by simp
  from updateEach_stops [OF assms(2) d r v iv assms(7), of ?post]
  obtain w' td' where res: "updateEach E T upd (?pre @ ps ! i # ?post) w
             = (w', Inl (Error (''Validation failed: '' @ join '', '' errors)))"
    and g': "get_table w' (name T) = Some td'"
    and l': "length (records td') = length (records td)"
    and patched: "\<forall>j<length ?pre. records td' ! (?pre ! j)
                 = mergeUpdate (records td ! (?pre ! j)) upd (clock E (tick w + 2 * j + 1))"
    and rest: "\<forall>q. q \<notin> set ?pre \<longrightarrow> records td' ! q = records td ! q"
    by blast
  have "ps ! i \<notin> set ?pre" using d by simp
  with rest have "records td' ! (ps ! i) = records td ! (ps ! i)" by blast
  moreover have "Table_update E T query upd w
             = (w', Inl (Error (''Validation failed: '' @ join '', '' errors)))"
    using assms(1) res split by (simp add: Table_update_def)
  moreover have "\<forall>j<i. records td' ! (ps ! j)
                 = mergeUpdate (records td ! (ps ! j)) upd (clock E (tick w + 2 * j + 1))"
    using patched len by simp
  ultimately show ?thesis using g' l' rest by blast
qed

theorem update_stops_at_first_invalid_witness:
  "\<forall>E. find_positions E people [] (people_world E) = Inr [0, 1]
      \<and> get_table (people_world E) (name people) = Some (people_data E)
      \<and> distinct [0 :: nat, 1]
      \<and> validateData E people (mergeUpdate (person_A E) member_patch (clock E 4)) = Inr []
      \<and> validateData E people (mergeUpdate (person_B E) member_patch (clock E 6))
          = Inr [age_message]
      \<and> (\<exists>w' td'. Table_update E people [] member_patch (people_world E)
                      = (w', Inl (Error (''Validation failed: '' @ age_message)))
               \<and> get_table w' (name people) = Some td'
               \<and> records td' = [mergeUpdate (person_A E) member_patch (clock E 5), person_B E])"
proof
  fix E
  let ?w = "people_world E" and ?td = "people_data E"
  have h1: "find_positions E people [] ?w = Inr [0, 1]" by (rule people_found)
  have h2: "get_table ?w (name people) = Some ?td" by (simp add: people_table people_def)
  have h3: "distinct [0 :: nat, 1]" by simp
  have h4: "(1 :: nat) < length [0 :: nat, 1]" by simp
  have h5: "\<forall>j<1. validateData E people
              (mergeUpdate (records ?td ! ([0, 1] ! j)) member_patch (clock E (tick ?w + 2 * j)))
            = Inr []"
    by (simp add: people_data_def people_valid_A)
  have h6: "validateData E people
              (mergeUpdate (records ?td ! ([0, 1] ! 1)) member_patch (clock E (tick ?w + 2 * 1)))
            = Inr [age_message]"
    by (simp add: people_data_def people_invalid_B)
  have h7: "[age_message] \<noteq> []" by simp
  from update_stops_at_first_invalid [OF h1 h2 h3 h4 h5 h6 h7]
  obtain w' td' where res: "Table_update E people [] member_patch ?w
             = (w', Inl (Error (''Validation failed: '' @ join '', '' [age_message])))"
    and g: "get_table w' (name people) = Some td'"
    and len: "length (records td') = length (records ?td)"
    and first: "\<forall>j<1. records td' ! ([0, 1] ! j)
                 = mergeUpdate (records ?td ! ([0, 1] ! j)) member_patch (clock E (tick ?w + 2 * j + 1))"
    and second: "records td' ! ([0, 1] ! 1) = records ?td ! ([0, 1] ! 1)"
    by blast
  have r0: "records td' ! 0 = mergeUpdate (person_A E) member_patch (clock E 5)"
    using first by (simp add: people_data_def people_world_eq)
  have r1: "records td' ! 1 = person_B E"
    using second by (simp add: people_data_def)
  from len have "length (records td') = 2" by (simp add: people_data_def)
  then obtain a b where ab: "records td' = [a, b]"
    by (cases "records td'"; cases "tl (records td')"; cases "tl (tl (records td'))") auto
  with r0 r1 have "records td' = [mergeUpdate (person_A E) member_patch (clock E 5), person_B E]"
    by simp
  with res g h1 h2 h3 people_valid_A people_invalid_B
  show "find_positions E people [] (people_world E) = Inr [0, 1]
      \<and> get_table (people_world E) (name people) = Some (people_data E)
      \<and> distinct [0 :: nat, 1]
      \<and> validateData E people (mergeUpdate (person_A E) member_patch (clock E 4)) = Inr []
      \<and> validateData E people (mergeUpdate (person_B E) member_patch (clock E 6))
          = Inr [age_message]
      \<and> (\<exists>w' td'. Table_update E people [] member_patch (people_world E)
                      = (w', Inl (Error (''Validation failed: '' @ age_message)))
               \<and> get_table w' (name people) = Some td'
               \<and> records td' = [mergeUpdate (person_A E) member_patch (clock E 5), person_B E])"
    by simp
qed

text \<open>
  The claim as stated fails: both people match the empty query, the first passes with
  the patch and the second (aged 150, over the maximum) does not. The call raises, and
  the first person has the role the patch gives.
\<close>

theorem update_patches_earlier_records:
  "\<forall>E. snd (Table_update E people [] member_patch (people_world E))
          = Inl (Error (''Validation failed: '' @ age_message))
      \<and> map_option (\<lambda>td. js_get (records td ! 0) ''role'') (get_table (people_world E) ''people'')
          = Some Undefined
      \<and> map_option (\<lambda>td. js_get (records td ! 0) ''role'')
          (get_table (fst (Table_update E people [] member_patch (people_world E))) ''people'')
          = Some (Str ''member'')"
  by (simp add: people_world_eq people_def people_data_def person_schema_def person_A_def
      person_B_def member_patch_def age_message_def model_defs schema_defs upt_rec quoted_def)

text \<open>
  C8, the type guard of the similarity search, does not hold: \<^verbatim>\<open>name\<close> is declared a
  string, and \<^verbatim>\<open>findSimilarBinary('name', ...)\<close> raises nothing and returns a result.
  On no table, field and input is the error of line 492 raised.
\<close>

theorem findSimilarBinary_guard_never_raises:
  "declaredType images ''name'' = Str ''string''
   \<and> (\<exists>rs. Table_findSimilarBinary E images ''name'' [66, 97, 115, 101] None (images_world E)
             = Inr rs)
   \<and> Table_findSimilarBinary E T field buffer tolerance w \<noteq> Inl (Error msg)"
proof -
  have "declaredType images ''name'' = Str ''string''
   \<and> (\<exists>rs. Table_findSimilarBinary E images ''name'' [66, 97, 115, 101] None (images_world E)
             = Inr rs)"
    by (simp add: images_world_def images_def image_schema_def model_defs schema_defs
        Table_findSimilarBinary_def declaredType_def js_replace_def retrieveBinaryData_def)
  moreover have "Table_findSimilarBinary E T field buffer tolerance w \<noteq> Inl (Error msg)"
    by (auto simp: Table_findSimilarBinary_def split: option.splits dest: similarEach_error)
  ultimately show ?thesis by simp
qed

text \<open>
  C9, order of \<^verbatim>\<open>$skip\<close> and \<^verbatim>\<open>$limit\<close>: on ten records in the order of the pipeline,
  \<^verbatim>\<open>[{$skip: 2}, {$limit: 3}]\<close> yields the third to fifth record and
  \<^verbatim>\<open>[{$limit: 3}, {$skip: 2}]\<close> yields the third record only. On any records and for any
  operands, the stage that comes first in the pipeline is applied first (an operand 0
  leaves the sequence as it is).
\<close>

theorem aggregate_skip_limit_order:
  "Table_aggregate E T [skipStage 2, limitStage 3]
       (with_records w (name T) [r0, r1, r2, r3, r4, r5, r6, r7, r8, r9]) = Inr [r2, r3, r4]
   \<and> Table_aggregate E T [limitStage 3, skipStage 2]
       (with_records w (name T) [r0, r1, r2, r3, r4, r5, r6, r7, r8, r9]) = Inr [r2]
   \<and> Table_aggregate E T [skipStage s, limitStage l] (with_records w (name T) rs)
       = Inr ((if l \<noteq> 0 then js_slice 0 (Some l) else id)
                ((if s \<noteq> 0 then js_slice s None else id) rs))
   \<and> Table_aggregate E T [limitStage l, skipStage s] (with_records w (name T) rs)
       = Inr ((if s \<noteq> 0 then js_slice s None else id)
                ((if l \<noteq> 0 then js_slice 0 (Some l) else id) rs))"
proof -
  note defs = Table_aggregate_def get_table_def with_records_def skipStage_def limitStage_def
    noStage_def applyStage_def
  have "Table_aggregate E T [skipStage 2, limitStage 3]
          (with_records w (name T) [r0, r1, r2, r3, r4, r5, r6, r7, r8, r9]) = Inr [r2, r3, r4]"
    by (simp add: defs js_slice_def)
  moreover have "Table_aggregate E T [limitStage 3, skipStage 2]
          (with_records w (name T) [r0, r1, r2, r3, r4, r5, r6, r7, r8, r9]) = Inr [r2]"
    by (simp add: defs js_slice_def)
  moreover have "Table_aggregate E T [skipStage s, limitStage l] (with_records w (name T) rs)
       = Inr ((if l \<noteq> 0 then js_slice 0 (Some l) else id)
                ((if s \<noteq> 0 then js_slice s None else id) rs))"
    by (simp add: defs)
  moreover have "Table_aggregate E T [limitStage l, skipStage s] (with_records w (name T) rs)
       = Inr ((if s \<noteq> 0 then js_slice s None else id)
                ((if l \<noteq> 0 then js_slice 0 (Some l) else id) rs))"
    by (simp add: defs)
  ultimately show ?thesis by blast
qed

text \<open>
  C10, array-valued query terms, as amended: when a query has a top-level field whose
  value is a non-empty array, or an object with at least one key and no recognized
  operator among its keys, the matcher returns false for every record, unless a
  \<^verbatim>\<open>$regex\<close> term before it has a pattern that does not compile, and then it raises
  \<^verbatim>\<open>SyntaxError\<close>. So \<^verbatim>\<open>find\<close> returns no record, \<^verbatim>\<open>count\<close> returns 0, and
  \<^verbatim>\<open>delete\<close> removes none.
\<close>

theorem matcher_rejects_unrecognized_operand:
  assumes "(key, v) \<in> set query" and "fails_closed v"
  shows "(matchesQuery E (Some r) query = Inr False \<or> matchesQuery E (Some r) query = Inl SyntaxError)
       \<and> (\<forall>rs. Table_find E T query w = Inr rs \<longrightarrow> rs = [])
       \<and> (\<forall>n. Table_count E T query w = Inr n \<longrightarrow> n = 0)
       \<and> (\<forall>w' n. Table_delete E T query w = (w', Inr n) \<longrightarrow>
            n = 0 \<and> map_option records (get_table w' (name T))
                     = map_option records (get_table w (name T)))"
proof -
  have matcher: "matchesQuery E (Some r) query = Inr False \<or> matchesQuery E (Some r) query = Inl SyntaxError"
  proof (cases "matchesQuery E (Some r) query")
    case (Inl e)
    then show ?thesis using matchesQuery_error by blast
  next
    case (Inr b)
    then show ?thesis using matchesQuery_not_true [OF assms, of E "Some r"] by (cases b) auto
  qed
  have found: "rs = []" if "Table_find E T query w = Inr rs" for rs
  proof -
    from that obtain ps where ps: "find_positions E T query w = Inr ps"
      and rs: "rs = records_at w (name T) ps"
      by (auto simp: Table_find_def split: sum.splits)
    have "ps = []"
      using ps matchesQuery_not_true [OF assms]
      by (auto simp: find_positions_def Let_def split: option.splits if_splits
          dest!: filter_e_none [rotated])
    then show ?thesis using rs by (simp add: records_at_def split: option.splits)
  qed
  have counted: "n = 0" if "Table_count E T query w = Inr n" for n
  proof -
    from assms(1) have "query \<noteq> []" by auto
    with that obtain rs where "Table_find E T query w = Inr rs" and "n = length rs"
      by (cases "Table_find E T query w") (auto simp: Table_count_def)
    then show ?thesis using found by simp
  qed
  have deleted: "n = 0 \<and> map_option records (get_table w' (name T))
                           = map_option records (get_table w (name T))"
    if "Table_delete E T query w = (w', Inr n)" for w' n
  proof -
    from that obtain td kept ixs where td: "get_table w (name T) = Some td"
      and kept: "filter_e (\<lambda>r. map_sum id Not (matchesQuery E (Some r) query)) (records td)
                   = Inr kept"
      and w': "w' = set_table w (name T) (td\<lparr>records := kept, indexes := ixs\<rparr>)"
      and n: "n = length (records td) - length kept"
      by (auto simp: Table_delete_def split: option.splits sum.splits prod.splits)
    have "map_sum id Not (matchesQuery E (Some x) query) \<noteq> Inr False" for x
      using matchesQuery_not_true [OF assms, of E "Some x"]
      by (cases "matchesQuery E (Some x) query") auto
    then have "kept = records td"
      using kept by (rule filter_e_all)
    then show ?thesis
      using td w' n by (simp add: get_table_set_table)
  qed
  from matcher found counted deleted show ?thesis by blast
qed

theorem matcher_rejects_unrecognized_operand_witness:
  "\<forall>E. ((''tags'', Arr [Str ''x'']) \<in> set [(''tags'', Arr [Str ''x''])]
        \<and> fails_closed (Arr [Str ''x'']))
     \<and> matchesQuery E (Some tagged) [(''tags'', Arr [Str ''x''])] = Inr False"
proof
  fix E
  have h: "(''tags'', Arr [Str ''x'']) \<in> set [(''tags'', Arr [Str ''x''])]"
    "fails_closed (Arr [Str ''x''])"
    by (simp_all add: fails_closed_def)
  have "matchesQuery E (Some tagged) [(''tags'', Arr [Str ''x''])] \<noteq> Inl SyntaxError"
    by (simp add: matchesQuery_def matchOperator_def show_nat.simps)
  with matcher_rejects_unrecognized_operand [OF h, of E tagged] h
  show "((''tags'', Arr [Str ''x'']) \<in> set [(''tags'', Arr [Str ''x''])]
          \<and> fails_closed (Arr [Str ''x'']))
        \<and> matchesQuery E (Some tagged) [(''tags'', Arr [Str ''x''])] = Inr False"
    by blast
qed

text \<open>
  The claim as stated fails on the empty array: it has no key, so the test over its
  keys holds, and the query \<^verbatim>\<open>{tags: []}\<close> matches the record.
\<close>

theorem matcher_accepts_empty_array:
  "\<forall>E. matchesQuery E (Some untagged) [(''tags'', Arr [])] = Inr True"
  by (simp add: matchesQuery_def untagged_def)


end
